theory Spec2Isabelle
  imports Complex_Main "HOL-Library.Char_ord" "HOL-Library.List_Lexorder"
    "HOL-Library.Product_Lexorder" "HOL-Library.Monad_Syntax"
begin

section \<open>Values, timestamps and tables\<close>

text \<open>
  The application (\<^verbatim>\<open>5.py\<close>) and the training script (\<^verbatim>\<open>train_models.py\<close>) work on
  pandas data frames. A frame is modelled as an ordered list of named columns; a column
  carries its dtype and its cells. Floating-point results (percentages, means) are
  modelled by exact reals.
\<close>

datatype timestamp = Timestamp (year: int) (month: nat) (day: nat) (tod: nat)
  \<comment> \<open>calendar date and the time of day in nanoseconds since midnight\<close>

datatype null_kind = NoneV | NaN | NaT

datatype cell = Str string | IntV int | FltV real | Date timestamp | Null null_kind

datatype dtype = DObject | DDatetime | DOther

datatype column = Column (dtype: dtype) (cells: "cell list")

type_synonym dataframe = "(string \<times> column) list"

fun isnull :: "cell \<Rightarrow> bool" where
  "isnull (Null k) = True"
| "isnull c = False"

definition notna :: "cell \<Rightarrow> bool" where
  "notna c = (\<not> isnull c)"

subsection \<open>Decimal rendering\<close>

definition digit_char :: "nat \<Rightarrow> char" where
  "digit_char d = char_of (48 + d)"

fun str_nat :: "nat \<Rightarrow> string" where
  "str_nat n = (if n < 10 then [digit_char n] else str_nat (n div 10) @ [digit_char (n mod 10)])"

declare str_nat.simps [simp del]

definition str_int :: "int \<Rightarrow> string" where
  "str_int i = (if i < 0 then CHR ''-'' # str_nat (nat (- i)) else str_nat (nat i))"

definition zfill :: "nat \<Rightarrow> string \<Rightarrow> string" where
  "zfill w s = replicate (w - length s) CHR ''0'' @ s"

subsection \<open>Calendar arithmetic on timestamps\<close>

definition month_index :: "timestamp \<Rightarrow> int" where
  "month_index t = year t * 12 + int (month t) - 1"

definition ts_key :: "timestamp \<Rightarrow> int \<times> nat \<times> nat" where
  "ts_key t = (month_index t, day t, tod t)"

definition ts_le :: "timestamp \<Rightarrow> timestamp \<Rightarrow> bool" where
  "ts_le a b =
     (month_index a < month_index b \<or>
      (month_index a = month_index b \<and>
         (day a < day b \<or> (day a = day b \<and> tod a \<le> tod b))))"

definition is_leap :: "int \<Rightarrow> bool" where
  "is_leap y = (y mod 4 = 0 \<and> (y mod 100 \<noteq> 0 \<or> y mod 400 = 0))"

definition days_before_year :: "int \<Rightarrow> int" where
  "days_before_year y = (y - 1) * 365 + (y - 1) div 4 - (y - 1) div 100 + (y - 1) div 400"

definition days_in_month :: "int \<Rightarrow> nat \<Rightarrow> nat" where
  "days_in_month y m =
     (if m = 2 then (if is_leap y then 29 else 28)
      else if m = 4 \<or> m = 6 \<or> m = 9 \<or> m = 11 then 30 else 31)"

definition days_before_month :: "int \<Rightarrow> nat \<Rightarrow> int" where
  "days_before_month y m = int (sum_list (map (days_in_month y) [1 ..< m]))"

definition toordinal :: "timestamp \<Rightarrow> int" where
  "toordinal t = days_before_year (year t) + days_before_month (year t) (month t) + int (day t)"

definition ns_per_day :: int where
  "ns_per_day = 86400 * 1000000000"

definition ts_ns :: "timestamp \<Rightarrow> int" where
  "ts_ns t = toordinal t * ns_per_day + int (tod t)"

definition days_since :: "timestamp \<Rightarrow> timestamp \<Rightarrow> int" where
  \<comment> \<open>\<^verbatim>\<open>(datetime.now() - t).days\<close>: the difference in whole days, rounded towards minus
      infinity. The left operand is a standard-library \<^verbatim>\<open>datetime\<close>: a difference too large
      for a pandas \<^verbatim>\<open>Timedelta\<close> falls back on the standard library's \<^verbatim>\<open>timedelta\<close>, so no
      pair of dates raises\<close>
  "days_since a b = (ts_ns a - ts_ns b) div ns_per_day"

definition timedelta_days :: "timestamp \<Rightarrow> timestamp \<Rightarrow> int option" where
  \<comment> \<open>one element of \<^verbatim>\<open>(a - b).dt.days\<close> on two datetime columns: the difference in whole
      days, rounded towards minus infinity. pandas holds the difference as 64-bit
      nanoseconds and raises (\<open>None\<close>) when it does not fit, which is at about 292 years\<close>
  "timedelta_days a b =
     (let d = ts_ns a - ts_ns b
      in if - (2 ^ 63) < d \<and> d < 2 ^ 63 then Some (d div ns_per_day) else None)"

definition ts_date :: "timestamp \<Rightarrow> int \<times> nat \<times> nat" where
  \<comment> \<open>\<^verbatim>\<open>.date()\<close>: the calendar date without the time of day\<close>
  "ts_date t = (year t, month t, day t)"

subsection \<open>Frame operations\<close>

definition get_col :: "dataframe \<Rightarrow> string \<Rightarrow> column option" where
  \<comment> \<open>\<^verbatim>\<open>df[c]\<close>; \<open>None\<close> stands for the \<^verbatim>\<open>KeyError\<close> of a missing column\<close>
  "get_col df c = map_of df c"

definition len_df :: "dataframe \<Rightarrow> nat" where
  "len_df df = (case df of [] \<Rightarrow> 0 | (n, c) # rest \<Rightarrow> length (cells c))"

definition select :: "bool list \<Rightarrow> 'a list \<Rightarrow> 'a list" where
  "select msk xs = map snd (filter fst (zip msk xs))"

definition mask_rows :: "bool list \<Rightarrow> dataframe \<Rightarrow> dataframe" where
  \<comment> \<open>\<^verbatim>\<open>df[mask]\<close> for a boolean mask\<close>
  "mask_rows msk df = map (\<lambda>(n, c). (n, Column (dtype c) (select msk (cells c)))) df"

definition put :: "string \<Rightarrow> 'v \<Rightarrow> (string \<times> 'v) list \<Rightarrow> (string \<times> 'v) list" where
  \<comment> \<open>stores a value under a name: replaces the entry in place, or appends a new one\<close>
  "put k v kvs =
     (if k \<in> set (map fst kvs) then map (\<lambda>(n, old). if n = k then (n, v) else (n, old)) kvs
      else kvs @ [(k, v)])"

definition set_col :: "dataframe \<Rightarrow> string \<Rightarrow> column \<Rightarrow> dataframe" where
  \<comment> \<open>\<^verbatim>\<open>df[c] = col\<close>\<close>
  "set_col df c col = put c col df"

definition py_key :: "cell \<Rightarrow> cell" where
  \<comment> \<open>Python compares and hashes \<^verbatim>\<open>5\<close> and \<^verbatim>\<open>5.0\<close> alike: a float with a whole value
      stands for that integer\<close>
  "py_key c =
     (case c of
        FltV r \<Rightarrow> (if r = of_int \<lfloor>r\<rfloor> then IntV \<lfloor>r\<rfloor> else FltV r)
      | _ \<Rightarrow> c)"

definition py_eq :: "cell \<Rightarrow> cell \<Rightarrow> bool" where
  "py_eq a b = (py_key a = py_key b)"

definition cell_eq :: "cell \<Rightarrow> cell \<Rightarrow> bool" where
  \<comment> \<open>the elementwise \<^verbatim>\<open>==\<close> of pandas: a null equals nothing\<close>
  "cell_eq a b = (notna a \<and> notna b \<and> py_eq a b)"

definition dict_get :: "(cell \<times> 'v) list \<Rightarrow> cell \<Rightarrow> 'v option" where
  \<comment> \<open>\<^verbatim>\<open>d.get(k)\<close> on a dictionary written as the list of its items\<close>
  "dict_get d k = map_option snd (find (\<lambda>(k', v). py_eq k' k) d)"

definition rows_notna :: "column list \<Rightarrow> bool list" where
  \<comment> \<open>per row: no null in any of the given columns\<close>
  "rows_notna cs =
     (case cs of [] \<Rightarrow> []
      | c # rest \<Rightarrow> map (\<lambda>i. list_all (\<lambda>col. notna (cells col ! i)) cs) [0 ..< length (cells c)])"

definition dropna :: "string list \<Rightarrow> dataframe \<Rightarrow> dataframe option" where
  \<comment> \<open>\<^verbatim>\<open>df.dropna(subset=...)\<close>; \<open>None\<close> is the \<^verbatim>\<open>KeyError\<close> of a missing column\<close>
  "dropna names df =
     (case those (map (get_col df) names) of
        None \<Rightarrow> None
      | Some cs \<Rightarrow> Some (mask_rows (rows_notna cs) df))"

definition to_datetime_cell :: "(cell \<Rightarrow> timestamp option) \<Rightarrow> cell \<Rightarrow> cell option" where
  \<comment> \<open>\<^verbatim>\<open>pd.to_datetime\<close> on one value; \<open>parse\<close> is pandas' parser for values that are
      neither timestamps nor null, \<open>None\<close> an unparseable value\<close>
  "to_datetime_cell parse c =
     (case c of
        Date t \<Rightarrow> Some (Date t)
      | Null k \<Rightarrow> Some (Null NaT)
      | _ \<Rightarrow> map_option Date (parse c))"

definition to_datetime :: "(cell \<Rightarrow> timestamp option) \<Rightarrow> column \<Rightarrow> column option" where
  \<comment> \<open>\<^verbatim>\<open>errors='raise'\<close>: one unparseable value raises (\<open>None\<close>)\<close>
  "to_datetime parse col =
     map_option (Column DDatetime) (those (map (to_datetime_cell parse) (cells col)))"

definition coerce_cell :: "(cell \<Rightarrow> timestamp option) \<Rightarrow> cell \<Rightarrow> cell" where
  \<comment> \<open>\<^verbatim>\<open>errors='coerce'\<close>: an unparseable value becomes \<^verbatim>\<open>NaT\<close>\<close>
  "coerce_cell parse c = (case to_datetime_cell parse c of Some d \<Rightarrow> d | None \<Rightarrow> Null NaT)"

definition to_datetime_coerce :: "(cell \<Rightarrow> timestamp option) \<Rightarrow> column \<Rightarrow> column" where
  "to_datetime_coerce parse col = Column DDatetime (map (coerce_cell parse) (cells col))"

definition wf_df :: "nat \<Rightarrow> dataframe \<Rightarrow> bool" where
  \<comment> \<open>a frame of \<open>n\<close> rows: every column has \<open>n\<close> cells\<close>
  "wf_df n df = list_all (\<lambda>(c, col). length (cells col) = n) df"

section \<open>Prediction (\<^verbatim>\<open>run_prediction\<close>)\<close>

text \<open>
  The failure-model artifact is whatever \<^verbatim>\<open>joblib.load\<close> returns: a dictionary from
  part identifiers to average days (numbers, whole or not, as the artifact's schema has
  them), or some other object. A failed load is the \<open>None\<close> of the \<open>load\<close> argument. The
  cache folder maps file names to the frames stored in them.
\<close>

type_synonym store = "(string \<times> dataframe) list"

datatype artifact = Dict "(cell \<times> real) list" | NotDict

datatype risk = LowRisk | HighRisk | FailureExpectedSoon

record prediction =
  p_part :: cell
  p_chassis :: cell
  p_production :: timestamp
  p_avg_ttf :: real
  p_days_in_service :: int
  p_remaining_life :: int
  p_risk :: risk

datatype pred_outcome =
    PredPreventUpdate
  | MissingSelections
  | ModelLoadError
  | PredRaised
  | NotFound
  | NoHistoricalData
  | Predicted prediction

definition truthy :: "cell option \<Rightarrow> bool" where
  \<comment> \<open>Python truth of a selected value: \<^verbatim>\<open>None\<close>, \<^verbatim>\<open>''\<close> and \<^verbatim>\<open>0\<close> are false\<close>
  "truthy v =
     (case v of
        None \<Rightarrow> False
      | Some (Str s) \<Rightarrow> (s \<noteq> [])
      | Some (IntV i) \<Rightarrow> (i \<noteq> 0)
      | Some (FltV r) \<Rightarrow> (r \<noteq> 0)
      | Some (Date t) \<Rightarrow> True
      | Some (Null k) \<Rightarrow> (k \<noteq> NoneV))"

definition py_int :: "real \<Rightarrow> int" where
  \<comment> \<open>\<^verbatim>\<open>int(x)\<close> on a float: truncation towards zero\<close>
  "py_int x = (if 0 \<le> x then \<lfloor>x\<rfloor> else \<lceil>x\<rceil>)"

definition avg_ttf_of :: "artifact \<Rightarrow> cell \<Rightarrow> real option" where
  \<comment> \<open>\<^verbatim>\<open>failure_model.get(part_val) if isinstance(failure_model, dict) else 365\<close>\<close>
  "avg_ttf_of failure_model part_val =
     (case failure_model of Dict d \<Rightarrow> dict_get d part_val | NotDict \<Rightarrow> Some 365)"

definition classify :: "int \<Rightarrow> risk" where
  "classify remaining_life =
     (if remaining_life < 0 then HighRisk
      else if remaining_life \<le> 30 then FailureExpectedSoon
      else LowRisk)"

definition date_equals :: "(int \<times> nat \<times> nat) \<Rightarrow> cell \<Rightarrow> bool" where
  \<comment> \<open>\<^verbatim>\<open>.dt.date == d\<close>: a null never compares equal\<close>
  "date_equals d c = (case c of Date t \<Rightarrow> ts_date t = d | _ \<Rightarrow> False)"

definition part_instance ::
  "(cell \<Rightarrow> timestamp option) \<Rightarrow> dataframe \<Rightarrow> string \<Rightarrow> cell \<Rightarrow> string \<Rightarrow> cell \<Rightarrow> string \<Rightarrow> timestamp
     \<Rightarrow> dataframe option" where
  "part_instance parse df chassis_col chassis_val part_col part_val prod_date_col selected =
     (case (get_col df chassis_col, get_col df part_col, get_col df prod_date_col) of
        (Some cc, Some pc, Some dc) \<Rightarrow>
          (case to_datetime parse dc of
             None \<Rightarrow> None
           | Some dts \<Rightarrow>
               Some (mask_rows
                 (map (\<lambda>(c, p, d).
                         cell_eq c chassis_val \<and> cell_eq p part_val \<and> date_equals (ts_date selected) d)
                    (zip (cells cc) (zip (cells pc) (cells dts)))) df))
      | _ \<Rightarrow> None)"

definition predict ::
  "timestamp \<Rightarrow> artifact \<Rightarrow> cell \<Rightarrow> cell \<Rightarrow> timestamp \<Rightarrow> pred_outcome" where
  \<comment> \<open>lines 660 to 688: the part instance has been located\<close>
  "predict now failure_model chassis_val part_val selected_production_date =
     (case avg_ttf_of failure_model part_val of
        None \<Rightarrow> NoHistoricalData
      | Some avg_ttf \<Rightarrow>
          (let days_in_service = days_since now selected_production_date;
               remaining_life = py_int (avg_ttf - real_of_int days_in_service)
           in Predicted \<lparr>p_part = part_val, p_chassis = chassis_val,
                p_production = selected_production_date, p_avg_ttf = avg_ttf,
                p_days_in_service = days_in_service,
                p_remaining_life = remaining_life,
                p_risk = classify remaining_life\<rparr>))"

definition run_prediction ::
  "(cell \<Rightarrow> timestamp option) \<Rightarrow> timestamp \<Rightarrow> artifact option \<Rightarrow> store \<Rightarrow> nat
     \<Rightarrow> string \<Rightarrow> cell option \<Rightarrow> string \<Rightarrow> cell option \<Rightarrow> string \<Rightarrow> string \<Rightarrow> string
     \<Rightarrow> pred_outcome" where
  "run_prediction parse now load cache n_clicks chassis_col chassis_val part_col part_val
       prod_date_col prod_date_val cache_filepath =
     (if n_clicks = 0 then PredPreventUpdate
      else if \<not> (chassis_col \<noteq> [] \<and> truthy chassis_val \<and> part_col \<noteq> [] \<and> truthy part_val \<and>
                 prod_date_col \<noteq> [] \<and> prod_date_val \<noteq> [] \<and> cache_filepath \<noteq> [])
      then MissingSelections
      else (case load of
          None \<Rightarrow> ModelLoadError
        | Some failure_model \<Rightarrow>
            (case (map_of cache cache_filepath, parse (Str prod_date_val)) of
               (Some df, Some selected_production_date) \<Rightarrow>
                 (case part_instance parse df chassis_col (the chassis_val) part_col (the part_val)
                         prod_date_col selected_production_date of
                    None \<Rightarrow> PredRaised
                  | Some inst \<Rightarrow>
                      (if len_df inst = 0 then NotFound
                       else predict now failure_model (the chassis_val) (the part_val)
                              selected_production_date))
             | _ \<Rightarrow> PredRaised)))"

section \<open>Offline training (\<^verbatim>\<open>train_and_save_model\<close>)\<close>

datatype train_result =
    LoadFailed
  | TrainRaised
  | NoValidRecords
  | NoModel
  | Saved "(cell \<times> real) list"

definition round_half_even :: "real \<Rightarrow> real" where
  \<comment> \<open>\<^verbatim>\<open>.round(0)\<close>: to the nearest whole number, a tie to the even neighbour\<close>
  "round_half_even x =
     (let f = \<lfloor>x\<rfloor>; d = x - of_int f
      in if d < 1 / 2 then of_int f
         else if 1 / 2 < d then of_int (f + 1)
         else if even f then of_int f else of_int (f + 1))"

definition mean :: "int list \<Rightarrow> real" where
  "mean vs = real_of_int (sum_list vs) / real (length vs)"

definition uniq :: "'a list \<Rightarrow> 'a list" where
  \<comment> \<open>the distinct values in order of first appearance\<close>
  "uniq xs = rev (remdups (rev xs))"

definition group_values :: "cell list \<Rightarrow> cell list \<Rightarrow> cell \<Rightarrow> int list" where
  \<comment> \<open>the whole-number values of the rows whose key is \<open>k\<close>\<close>
  "group_values keys vals k =
     concat (map (\<lambda>(k', v). case v of IntV t \<Rightarrow> (if py_key k' = k then [t] else []) | _ \<Rightarrow> [])
               (zip keys vals))"

definition groupby_mean_round :: "cell list \<Rightarrow> cell list \<Rightarrow> (cell \<times> real) list" where
  \<comment> \<open>\<^verbatim>\<open>groupby(key)[val].mean().round(0).to_dict()\<close>; a null key forms no group\<close>
  "groupby_mean_round keys vals =
     map (\<lambda>k. (k, round_half_even (mean (group_values keys vals k))))
       (uniq (map py_key (filter notna keys)))"

definition time_to_failure :: "cell \<Rightarrow> cell \<Rightarrow> cell option" where
  \<comment> \<open>one row of \<^verbatim>\<open>(repair - production).dt.days\<close>; \<open>None\<close>: the subtraction raises\<close>
  "time_to_failure repair production =
     (case (repair, production) of
        (Date r, Date p) \<Rightarrow> map_option IntV (timedelta_days r p)
      | _ \<Rightarrow> Some (Null NaN))"

definition ge_zero :: "cell \<Rightarrow> bool" where
  \<comment> \<open>\<^verbatim>\<open>>= 0\<close> on one value: a null compares false\<close>
  "ge_zero c = (case c of IntV t \<Rightarrow> 0 \<le> t | FltV r \<Rightarrow> 0 \<le> r | _ \<Rightarrow> False)"

definition failures_frame ::
  "(column \<Rightarrow> (cell \<Rightarrow> timestamp option) option) \<Rightarrow> dataframe \<Rightarrow> dataframe option" where
  \<comment> \<open>lines 25 to 27; \<open>prs\<close> gives the parser pandas settles on for a column. \<open>None\<close> is
      an exception: a missing column or a raising conversion\<close>
  "failures_frame prs df0 = do {
     pc \<leftarrow> get_col df0 ''Production Date'';
     pp \<leftarrow> prs pc;
     let df1 = set_col df0 ''Production Date'' (to_datetime_coerce pp pc);
     rc \<leftarrow> get_col df1 ''repair date'';
     pr \<leftarrow> prs rc;
     let df2 = set_col df1 ''repair date'' (to_datetime_coerce pr rc);
     dropna [''Production Date'', ''repair date''] df2
   }"

definition ttf_frame :: "dataframe \<Rightarrow> dataframe option" where
  \<comment> \<open>lines 37 and 38\<close>
  "ttf_frame df_failures = do {
     r \<leftarrow> get_col df_failures ''repair date'';
     p \<leftarrow> get_col df_failures ''Production Date'';
     ttf \<leftarrow> those (map (\<lambda>(a, b). time_to_failure a b) (zip (cells r) (cells p)));
     let df3 = set_col df_failures ''TimeToFailure'' (Column DOther ttf);
     Some (mask_rows (map ge_zero ttf) df3)
   }"

definition model_of_frame :: "dataframe \<Rightarrow> (cell \<times> real) list option" where
  \<comment> \<open>line 42\<close>
  "model_of_frame df = do {
     k \<leftarrow> get_col df ''Part Number'';
     v \<leftarrow> get_col df ''TimeToFailure'';
     Some (groupby_mean_round (cells k) (cells v))
   }"

definition train_and_save_model ::
  "(column \<Rightarrow> (cell \<Rightarrow> timestamp option) option) \<Rightarrow> dataframe option \<Rightarrow> train_result" where
  "train_and_save_model prs loaded =
     (case loaded of
        None \<Rightarrow> LoadFailed
      | Some df0 \<Rightarrow>
          (case failures_frame prs df0 of
             None \<Rightarrow> TrainRaised
           | Some df_failures \<Rightarrow>
               (if len_df df_failures = 0 then NoValidRecords
                else (case Option.bind (ttf_frame df_failures) model_of_frame of
                    None \<Rightarrow> TrainRaised
                  | Some failure_model \<Rightarrow>
                      (if failure_model = [] then NoModel else Saved failure_model)))))"

subsection \<open>The training step in the words of the specification\<close>

text \<open>
  A row is (part number, production date, repair date). The specification keeps the
  rows with both dates present, takes repair minus production in whole days, discards
  the negative values, groups by part number, averages and rounds. A date is present
  when the value is a timestamp, or another value that the column's parser reads.
\<close>

definition spec_date :: "(cell \<Rightarrow> timestamp option) \<Rightarrow> cell \<Rightarrow> timestamp option" where
  "spec_date parse c =
     (case c of
        Date t \<Rightarrow> Some t
      | Null k \<Rightarrow> None
      | Str s \<Rightarrow> parse (Str s)
      | IntV i \<Rightarrow> parse (IntV i)
      | FltV r \<Rightarrow> parse (FltV r))"

definition spec_dated_rows ::
  "(cell \<Rightarrow> timestamp option) \<Rightarrow> (cell \<Rightarrow> timestamp option) \<Rightarrow> (cell \<times> cell \<times> cell) list
     \<Rightarrow> (cell \<times> timestamp \<times> timestamp) list" where
  \<comment> \<open>the rows with both dates: (part number, production, repair)\<close>
  "spec_dated_rows pp pr rows =
     List.map_filter
       (\<lambda>(k, p, r). case (spec_date pp p, spec_date pr r) of
                       (Some tp, Some tr) \<Rightarrow> Some (k, tp, tr)
                     | _ \<Rightarrow> None)
       rows"

definition spec_days :: "timestamp \<Rightarrow> timestamp \<Rightarrow> int" where
  \<comment> \<open>repair minus production in whole days\<close>
  "spec_days tr tp = \<lfloor>real_of_int (ts_ns tr - ts_ns tp) / real_of_int ns_per_day\<rfloor>"

definition spec_out_of_range :: "cell \<times> timestamp \<times> timestamp \<Rightarrow> bool" where
  \<comment> \<open>the two dates are further apart than 64-bit nanoseconds hold\<close>
  "spec_out_of_range row =
     (case row of (k, tp, tr) \<Rightarrow> 2 ^ 63 \<le> \<bar>ts_ns tr - ts_ns tp\<bar>)"

definition spec_ttf_rows :: "(cell \<times> timestamp \<times> timestamp) list \<Rightarrow> (cell \<times> int) list" where
  \<comment> \<open>(part number, time to failure) of the rows whose time to failure is not negative\<close>
  "spec_ttf_rows dated =
     filter (\<lambda>(k, t). 0 \<le> t) (map (\<lambda>(k, tp, tr). (k, spec_days tr tp)) dated)"

definition spec_mean_ttf :: "(cell \<times> int) list \<Rightarrow> cell \<Rightarrow> real" where
  "spec_mean_ttf ttfs k = mean (map snd (filter (\<lambda>(k', t). py_eq k' k) ttfs))"

section \<open>Loading, normalising and caching\<close>

text \<open>
  What the handlers take from outside is collected in an environment: werkzeug's
  \<^verbatim>\<open>secure_filename\<close>, the pandas readers (\<open>None\<close>: the reader raised), the date parser
  pandas settles on for a column (\<open>None\<close>: \<^verbatim>\<open>pd.to_datetime\<close> raised), whether the
  operating system lets a cache file be removed, SHA-256, the decoding of an upload, and
  \<^verbatim>\<open>to_parquet\<close>: the frame as \<^verbatim>\<open>read_parquet\<close> gives it back, or \<open>None\<close> when the
  write raises (as it does on an object column that mixes text and numbers).
  The file system is the data folder (name to modification time and bytes) and the cache
  folder; the trace records each call of \<^verbatim>\<open>read_file\<close> and each write or removal.
\<close>

datatype event = ReadFile string | RemoveCache string | WriteCache string | WriteData string

record fs =
  data_folder :: "(string \<times> int \<times> string) list"
  cache_folder :: store
  trace :: "event list"

record env =
  secure_filename :: "string \<Rightarrow> string"
  pd_read_csv :: "string \<Rightarrow> dataframe option"
  pd_read_excel :: "string \<Rightarrow> dataframe option"
  parser :: "column \<Rightarrow> (cell \<Rightarrow> timestamp option) option"
  removable :: "string \<Rightarrow> bool"
  sha256_hexdigest :: "string \<Rightarrow> string"
  b64decode :: "string \<Rightarrow> string option"
  to_parquet :: "dataframe \<Rightarrow> dataframe option"

definition lower_char :: "char \<Rightarrow> char" where
  "lower_char c =
     (let n = (of_char c :: nat) in if 65 \<le> n \<and> n \<le> 90 then char_of (n + 32) else c)"

definition lower :: "string \<Rightarrow> string" where
  "lower s = map lower_char s"

definition startswith :: "string \<Rightarrow> string \<Rightarrow> bool" where
  "startswith s p = (take (length p) s = p)"

definition endswith :: "string \<Rightarrow> string \<Rightarrow> bool" where
  "endswith s p = (length p \<le> length s \<and> drop (length s - length p) s = p)"

definition read_file :: "env \<Rightarrow> string \<Rightarrow> string \<Rightarrow> dataframe option" where
  "read_file e file_source filename_for_ext_check =
     (if endswith (lower filename_for_ext_check) ''.csv'' then pd_read_csv e file_source
      else if endswith (lower filename_for_ext_check) ''.xlsx''
              \<or> endswith (lower filename_for_ext_check) ''.xls''
      then pd_read_excel e file_source
      else None)"

definition is_space :: "char \<Rightarrow> bool" where
  \<comment> \<open>the code points below 256 that \<^verbatim>\<open>str.strip()\<close> trims; a character of a string
      is one code point\<close>
  "is_space c =
     (let n = (of_char c :: nat)
      in (9 \<le> n \<and> n \<le> 13) \<or> (28 \<le> n \<and> n \<le> 32) \<or> n = 133 \<or> n = 160)"

definition strip :: "string \<Rightarrow> string" where
  "strip s = rev (dropWhile is_space (rev (dropWhile is_space s)))"

definition strip_cell :: "cell \<Rightarrow> cell" where
  \<comment> \<open>\<^verbatim>\<open>lambda x: x.strip() if isinstance(x, str) else x\<close>\<close>
  "strip_cell c = (case c of Str s \<Rightarrow> Str (strip s) | _ \<Rightarrow> c)"

definition date_like :: "nat \<Rightarrow> column \<Rightarrow> bool" where
  \<comment> \<open>\<^verbatim>\<open>not converted_col.isnull().all() and (converted_col.notna().sum() / len(df) > 0.5)\<close>\<close>
  "date_like n converted_col =
     (\<not> list_all isnull (cells converted_col) \<and>
      1 / 2 < real (length (filter notna (cells converted_col))) / real n)"

definition convert_column ::
  "(column \<Rightarrow> (cell \<Rightarrow> timestamp option) option) \<Rightarrow> nat \<Rightarrow> column \<Rightarrow> column" where
  \<comment> \<open>the \<^verbatim>\<open>try\<close> block: a raising conversion leaves the column as it is\<close>
  "convert_column prs n col =
     (case prs col of
        None \<Rightarrow> col
      | Some parse \<Rightarrow>
          (let converted_col = to_datetime_coerce parse col
           in if date_like n converted_col then converted_col else col))"

definition normalize_column ::
  "(column \<Rightarrow> (cell \<Rightarrow> timestamp option) option) \<Rightarrow> nat \<Rightarrow> column \<Rightarrow> column" where
  "normalize_column prs n col =
     (if dtype col = DObject
      then (let col1 = convert_column prs n col
            in Column (dtype col1) (map strip_cell (cells col1)))
      else col)"

definition normalize_frame ::
  "(column \<Rightarrow> (cell \<Rightarrow> timestamp option) option) \<Rightarrow> dataframe \<Rightarrow> dataframe" where
  \<comment> \<open>the loop over \<^verbatim>\<open>df_to_process.columns\<close> (column names are unique)\<close>
  "normalize_frame prs df = map (\<lambda>(name, col). (name, normalize_column prs (len_df df) col)) df"

datatype trigger = NoTrigger | UploadData | SelectDataset

datatype load_outcome =
    PreventUpdate
  | LoadRaised
  | OpenSaveModal string string
  | Loaded string string

definition rebuild :: "env \<Rightarrow> string \<Rightarrow> string \<Rightarrow> string \<Rightarrow> fs \<Rightarrow> bool \<times> fs" where
  \<comment> \<open>\<^verbatim>\<open>read_file\<close>, the normalising loop and \<^verbatim>\<open>to_parquet\<close>, as both handlers have them.
      The flag says that \<^verbatim>\<open>to_parquet\<close> raised: it stands outside every \<^verbatim>\<open>try\<close>\<close>
  "rebuild e file_source filename cache_filename st =
     (let st1 = st\<lparr>trace := trace st @ [ReadFile filename]\<rparr>
      in case read_file e file_source filename of
           None \<Rightarrow> (False, st1)
         | Some df_to_process \<Rightarrow>
             (case to_parquet e (normalize_frame (parser e) df_to_process) of
                None \<Rightarrow> (True, st1)
              | Some stored \<Rightarrow>
                  (False,
                   st1\<lparr>cache_folder := put cache_filename stored (cache_folder st1),
                       trace := trace st1 @ [WriteCache cache_filename]\<rparr>)))"

definition finish :: "string \<Rightarrow> string \<Rightarrow> bool \<times> fs \<Rightarrow> load_outcome \<times> fs" where
  \<comment> \<open>the handler's answer after the rebuild: the exception, or the path and the label\<close>
  "finish cache_filename file_label r =
     (if fst r then (LoadRaised, snd r) else (Loaded cache_filename file_label, snd r))"

definition select_cache_filename :: "string \<Rightarrow> int \<Rightarrow> string" where
  "select_cache_filename s_filename mtime =
     ''select_'' @ s_filename @ ''_'' @ str_int mtime @ ''.parquet''"

definition upload_cache_filename :: "string \<Rightarrow> string \<Rightarrow> string" where
  "upload_cache_filename s_filename content_hash =
     ''upload_'' @ s_filename @ ''_'' @ take 16 content_hash @ ''.parquet''"

definition old_cache :: "string \<Rightarrow> string \<Rightarrow> bool" where
  \<comment> \<open>the glob pattern \<^verbatim>\<open>select_{s_filename}_*.parquet\<close>\<close>
  "old_cache s_filename name =
     (length (''select_'' @ s_filename @ ''_'') + length ''.parquet'' \<le> length name \<and>
      startswith name (''select_'' @ s_filename @ ''_'') \<and> endswith name ''.parquet'')"

definition sweep :: "env \<Rightarrow> string \<Rightarrow> fs \<Rightarrow> fs" where
  \<comment> \<open>the loop over \<^verbatim>\<open>glob.glob\<close>: a refused removal is only reported\<close>
  "sweep e s_filename st =
     st\<lparr>cache_folder :=
          filter (\<lambda>(name, d). \<not> (old_cache s_filename name \<and> removable e name)) (cache_folder st),
        trace := trace st @ map RemoveCache (filter (old_cache s_filename) (map fst (cache_folder st)))\<rparr>"

definition handle_file_selection_or_upload ::
  "env \<Rightarrow> fs \<Rightarrow> trigger \<Rightarrow> string \<Rightarrow> string \<Rightarrow> string \<Rightarrow> load_outcome \<times> fs" where
  "handle_file_selection_or_upload e st triggered_id uploaded_content selected_file uploaded_filename =
     (if triggered_id = NoTrigger then (PreventUpdate, st)
      else if triggered_id = UploadData \<and> uploaded_content \<noteq> [] \<and> uploaded_filename \<noteq> []
      then (OpenSaveModal uploaded_content uploaded_filename, st)
      else if triggered_id = SelectDataset \<and> selected_file \<noteq> []
      then (case map_of (data_folder st) selected_file of
              None \<Rightarrow> (PreventUpdate, st)
            | Some (mtime, content) \<Rightarrow>
                (let s_filename = secure_filename e selected_file;
                     cache_filename = select_cache_filename s_filename mtime
                 in if map_of (cache_folder st) cache_filename = None
                    then finish cache_filename selected_file
                           (rebuild e content selected_file cache_filename (sweep e s_filename st))
                    else (Loaded cache_filename selected_file, st)))
      else (PreventUpdate, st))"

definition handle_save_file_confirmation ::
  "env \<Rightarrow> int \<Rightarrow> fs \<Rightarrow> nat \<Rightarrow> string \<Rightarrow> (string \<times> string) option \<Rightarrow> load_outcome \<times> fs" where
  "handle_save_file_confirmation e now st n_clicks save_choice temp_data =
     (case temp_data of
        None \<Rightarrow> (PreventUpdate, st)
      | Some (uploaded_content, uploaded_filename) \<Rightarrow>
          (if n_clicks = 0 then (PreventUpdate, st)
           else (case b64decode e uploaded_content of
               None \<Rightarrow> (LoadRaised, st)
             | Some decoded_bytes \<Rightarrow>
                 (let st1 = (if save_choice = ''yes''
                             then st\<lparr>data_folder :=
                                       put (secure_filename e uploaded_filename) (now, decoded_bytes)
                                         (data_folder st),
                                     trace := trace st @ [WriteData (secure_filename e uploaded_filename)]\<rparr>
                             else st);
                      content_hash = sha256_hexdigest e decoded_bytes;
                      cache_filename =
                        upload_cache_filename (secure_filename e uploaded_filename) content_hash
                  in finish cache_filename uploaded_filename
                       (rebuild e decoded_bytes uploaded_filename cache_filename st1)))))"

definition loader_calls :: "event list \<Rightarrow> nat" where
  \<comment> \<open>how often \<^verbatim>\<open>read_file\<close> was called\<close>
  "loader_calls tr = length (filter (\<lambda>ev. case ev of ReadFile f \<Rightarrow> True | _ \<Rightarrow> False) tr)"

section \<open>Chart queries (\<^verbatim>\<open>generate_graph\<close>)\<close>

text \<open>
  A query holds the state of the chart controls. An unset control (\<^verbatim>\<open>None\<close>) and an
  empty one are both false in Python, so an unset column name is the empty string, an
  unset value filter the empty list and an unset top-N limit \<open>0\<close>. The result is what the
  callback hands to the page: an alert with its colour, or a figure with the frame it
  plots and the category order of its x axis.
\<close>

datatype graph_type = G1d | G2d | G3d | GOther
datatype td_mode = Normal | ProdRepair | TdOther
datatype sort_mode = NoSort | Asc | Desc
datatype count_mode = Count | Percentage
datatype style = Bar | Line | Area | BarStacked | Scatter3d | Line3d | Bubble3d
datatype color = warning | info | danger

record query =
  q_style :: style
  q_count_mode :: count_mode
  q_sort_mode :: sort_mode
  q_g_type :: graph_type
  q_td_mode :: td_mode
  q_top_n :: nat
  q_x :: string
  q_x_filter :: "cell list"
  q_y :: string
  q_y_filter :: "cell list"
  q_z :: string
  q_z_filter :: "cell list"
  q_pr_date_col :: string
  q_pr_group_cols :: "string list"
  q_pr_group_filter :: "cell list"
  q_pr_agg_col :: string
  q_pr_agg_side_val :: "cell option"

record figure =
  fig_data :: dataframe
  fig_x :: string
  fig_y :: string
  fig_categoryarray :: "string list option"

datatype outcome =
    GraphPreventUpdate
  | GraphRaised
  | NotModelled
  | Alert color
  | Graph figure

subsection \<open>Column helpers\<close>

definition str_cell :: "(cell \<Rightarrow> string) \<Rightarrow> cell \<Rightarrow> string" where
  \<comment> \<open>\<^verbatim>\<open>str\<close> of a value as \<^verbatim>\<open>astype(str)\<close> writes it; \<open>fmt\<close> renders floats and timestamps\<close>
  "str_cell fmt c =
     (case c of
        Str s \<Rightarrow> s
      | IntV i \<Rightarrow> str_int i
      | Null NoneV \<Rightarrow> ''None''
      | Null NaN \<Rightarrow> ''nan''
      | Null NaT \<Rightarrow> ''NaT''
      | _ \<Rightarrow> fmt c)"

definition astype_str :: "(cell \<Rightarrow> string) \<Rightarrow> column \<Rightarrow> column" where
  "astype_str fmt col = Column DObject (map (\<lambda>c. Str (str_cell fmt c)) (cells col))"

definition isin :: "column \<Rightarrow> cell list \<Rightarrow> bool list" where
  "isin col vals = map (\<lambda>c. c \<in> set vals) (cells col)"

definition cell_ord :: "cell \<Rightarrow> nat \<times> real \<times> string" where
  \<comment> \<open>the order in which pandas sorts group keys: numbers by value, text by code point\<close>
  "cell_ord c =
     (case c of
        IntV i \<Rightarrow> (0, real_of_int i, [])
      | FltV r \<Rightarrow> (0, r, [])
      | Date t \<Rightarrow> (1, real_of_int (ts_ns t), [])
      | Str s \<Rightarrow> (2, 0, s)
      | Null k \<Rightarrow> (3, 0, []))"

definition groupby_size :: "('k \<Rightarrow> 'o::linorder) \<Rightarrow> 'k list \<Rightarrow> ('k \<times> nat) list" where
  \<comment> \<open>\<^verbatim>\<open>groupby(keys).size()\<close>: one row per distinct key, in key order\<close>
  "groupby_size ord ks = map (\<lambda>k. (k, count_list ks k)) (sort_key ord (remdups ks))"

definition value_counts :: "cell list \<Rightarrow> (cell \<times> nat) list" where
  \<comment> \<open>\<^verbatim>\<open>value_counts()\<close>: nulls dropped, most frequent first, ties in order of appearance\<close>
  "value_counts cs =
     sort_key (\<lambda>(k, n). - int n) (map (\<lambda>k. (k, count_list cs k)) (uniq (filter notna cs)))"

definition sort_by_count :: "sort_mode \<Rightarrow> ('k \<times> nat) list \<Rightarrow> ('k \<times> nat) list" where
  \<comment> \<open>\<^verbatim>\<open>sort_values(by='Count', ascending=...)\<close>, stable on ties\<close>
  "sort_by_count m rows =
     (case m of
        NoSort \<Rightarrow> rows
      | Asc \<Rightarrow> sort_key (\<lambda>(k, n). int n) rows
      | Desc \<Rightarrow> sort_key (\<lambda>(k, n). - int n) rows)"

definition head :: "nat \<Rightarrow> 'a list \<Rightarrow> 'a list" where
  "head n rows = take n rows"

definition count_column :: "nat list \<Rightarrow> column" where
  "count_column ns = Column DOther (map (\<lambda>n. IntV (int n)) ns)"

subsection \<open>Month buckets\<close>

definition period_M_str :: "cell \<Rightarrow> string" where
  \<comment> \<open>\<^verbatim>\<open>.dt.to_period('M').astype(str)\<close>\<close>
  "period_M_str c =
     (case c of
        Date t \<Rightarrow> zfill 4 (str_int (year t)) @ ''-'' @ zfill 2 (str_nat (month t))
      | _ \<Rightarrow> ''NaT'')"

definition next_month :: "timestamp \<Rightarrow> timestamp" where
  \<comment> \<open>the month-begin offset applied to a timestamp: the first of the next month, same time of day\<close>
  "next_month t =
     Timestamp ((month_index t + 1) div 12) (nat ((month_index t + 1) mod 12) + 1) 1 (tod t)"

definition rollforward :: "timestamp \<Rightarrow> timestamp" where
  "rollforward t = (if day t = 1 then t else next_month t)"

function month_starts :: "timestamp \<Rightarrow> timestamp \<Rightarrow> timestamp list" where
  "month_starts cur stop =
     (if ts_le cur stop
      then cur # (if cur = stop then [] else month_starts (next_month cur) stop)
      else [])"
  by pat_completeness auto
termination
  by (relation "measure (\<lambda>(cur, stop). nat (month_index stop + 1 - month_index cur))")
     (auto simp: ts_le_def month_index_def next_month_def)

declare month_starts.simps [simp del]

definition date_range_MS :: "timestamp \<Rightarrow> timestamp \<Rightarrow> timestamp list" where
  \<comment> \<open>\<^verbatim>\<open>pd.date_range(start, end, freq='MS')\<close>\<close>
  "date_range_MS start stop = month_starts (rollforward start) stop"

definition dates_of :: "column \<Rightarrow> timestamp list" where
  "dates_of col = concat (map (\<lambda>c. case c of Date t \<Rightarrow> [t] | _ \<Rightarrow> []) (cells col))"

definition ts_min :: "timestamp \<Rightarrow> timestamp \<Rightarrow> timestamp" where
  "ts_min a b = (if ts_le a b then a else b)"

definition ts_max :: "timestamp \<Rightarrow> timestamp \<Rightarrow> timestamp" where
  "ts_max a b = (if ts_le a b then b else a)"

definition col_min :: "column \<Rightarrow> timestamp option" where
  \<comment> \<open>\<^verbatim>\<open>.min()\<close> of a date column, nulls skipped; \<open>None\<close> is \<^verbatim>\<open>NaT\<close>\<close>
  "col_min col = (case dates_of col of [] \<Rightarrow> None | t # ts \<Rightarrow> Some (fold ts_min ts t))"

definition col_max :: "column \<Rightarrow> timestamp option" where
  "col_max col = (case dates_of col of [] \<Rightarrow> None | t # ts \<Rightarrow> Some (fold ts_max ts t))"

definition full_month_range :: "column \<Rightarrow> string list option" where
  \<comment> \<open>lines 905 and 906, 931 and 932; \<^verbatim>\<open>date_range\<close> raises on \<^verbatim>\<open>NaT\<close>\<close>
  "full_month_range col = do {
     min_date \<leftarrow> col_min col;
     max_date \<leftarrow> col_max col;
     Some (map (\<lambda>t. period_M_str (Date t)) (date_range_MS min_date max_date))
   }"

subsection \<open>The one-dimensional branch\<close>

definition df_plot_1d :: "(cell \<Rightarrow> string) \<Rightarrow> query \<Rightarrow> dataframe \<Rightarrow> dataframe option" where
  \<comment> \<open>lines 983 to 985; \<open>None\<close> is the \<^verbatim>\<open>KeyError\<close> of a missing column\<close>
  "df_plot_1d fmt q df = do {
     cx \<leftarrow> get_col df (q_x q);
     let df_plot = set_col df (q_x q) (astype_str fmt cx);
     if q_x_filter q \<noteq> []
     then do {
       cx' \<leftarrow> get_col df_plot (q_x q);
       Some (mask_rows (isin cx' (map (\<lambda>v. Str (str_cell fmt v)) (q_x_filter q))) df_plot)
     }
     else Some df_plot
   }"

definition counts_1d :: "query \<Rightarrow> column \<Rightarrow> (cell \<times> nat) list" where
  \<comment> \<open>lines 988 to 992: the counted, sorted and truncated table\<close>
  "counts_1d q cx =
     (let value_counts1 = sort_by_count (q_sort_mode q) (value_counts (cells cx))
      in if q_top_n q \<noteq> 0 then head (q_top_n q) value_counts1 else value_counts1)"

definition percentage_column :: "nat list \<Rightarrow> column" where
  \<comment> \<open>lines 996 and 997\<close>
  "percentage_column ns =
     (let total = sum_list ns
      in if 0 < total
         then Column DOther (map (\<lambda>n. FltV (real n / real total * 100)) ns)
         else Column DOther (map (\<lambda>n. IntV 0) ns))"

definition graph_1d :: "(cell \<Rightarrow> string) \<Rightarrow> query \<Rightarrow> dataframe \<Rightarrow> outcome option" where
  "graph_1d fmt q df =
     (if q_x q = [] then Some (Alert warning)
      else do {
        df_plot \<leftarrow> df_plot_1d fmt q df;
        if len_df df_plot = 0 then Some (Alert info)
        else do {
          cx \<leftarrow> get_col df_plot (q_x q);
          let rows = counts_1d q cx;
          let value_counts1 = [(q_x q, Column DObject (map fst rows)),
                               (''Count'', count_column (map snd rows))];
          Some (Graph
            (if q_count_mode q = Percentage
             then \<lparr>fig_data = set_col value_counts1 ''Percentage'' (percentage_column (map snd rows)),
                    fig_x = q_x q, fig_y = ''Percentage'', fig_categoryarray = None\<rparr>
             else \<lparr>fig_data = value_counts1,
                    fig_x = q_x q, fig_y = ''Count'', fig_categoryarray = None\<rparr>))
        }
      })"

subsection \<open>The two-dimensional branch, normal mode\<close>

definition strs_of :: "column \<Rightarrow> string list" where
  \<comment> \<open>the values of a column that holds text\<close>
  "strs_of col = map (\<lambda>c. case c of Str s \<Rightarrow> s | _ \<Rightarrow> []) (cells col)"

definition str_column :: "string list \<Rightarrow> column" where
  "str_column ss = Column DObject (map Str ss)"

definition totals_2d :: "query \<Rightarrow> (string \<times> nat) list \<Rightarrow> (string \<times> nat) list" where
  \<comment> \<open>lines 945 and 948, 966 and 969: the table of totals as the sorts leave it\<close>
  "totals_2d q totals =
     (let totals1 = sort_by_count (q_sort_mode q) totals
      in if q_top_n q \<noteq> 0 \<and> q_sort_mode q = NoSort then sort_by_count Desc totals1 else totals1)"

definition order_2d :: "query \<Rightarrow> (string \<times> nat) list \<Rightarrow> string list" where
  \<comment> \<open>lines 946 and 949, 967 and 970: the category order of a text axis\<close>
  "order_2d q totals =
     (if q_top_n q \<noteq> 0 then map fst (head (q_top_n q) (totals_2d q totals))
      else map fst (sort_by_count (q_sort_mode q) totals))"

definition astype_str_col :: "(cell \<Rightarrow> string) \<Rightarrow> string \<Rightarrow> dataframe \<Rightarrow> dataframe option" where
  \<comment> \<open>\<^verbatim>\<open>df[c] = df[c].astype(str)\<close>\<close>
  "astype_str_col fmt c df = map_option (\<lambda>col. set_col df c (astype_str fmt col)) (get_col df c)"

definition filter_isin :: "string \<Rightarrow> cell list \<Rightarrow> dataframe \<Rightarrow> dataframe option" where
  \<comment> \<open>\<^verbatim>\<open>if vals: df = df[df[c].isin(vals)]\<close>\<close>
  "filter_isin c vals df =
     (if vals \<noteq> [] then map_option (\<lambda>col. mask_rows (isin col vals) df) (get_col df c)
      else Some df)"

definition df_plot_2d :: "(cell \<Rightarrow> string) \<Rightarrow> query \<Rightarrow> dataframe
    \<Rightarrow> (dataframe \<times> bool \<times> string \<times> string list option) option" where
  \<comment> \<open>lines 922 to 939: the filtered frame, whether the x axis is a date, the name of the
      x column and the month range\<close>
  "df_plot_2d fmt q df = do {
     df_plot \<leftarrow> dropna [q_x q, q_y q] df;
     cx \<leftarrow> get_col df_plot (q_x q);
     let is_date_axis = (dtype cx = DDatetime);
     let x_axis_col = (if is_date_axis then ''DateGroup'' else q_x q);
     let df_plot1 = (if is_date_axis
                     then set_col df_plot x_axis_col (str_column (map period_M_str (cells cx)))
                     else df_plot);
     final_x_order \<leftarrow> (if is_date_axis \<and> len_df df_plot1 \<noteq> 0
                       then map_option Some (full_month_range cx) else Some None);
     df_plot2 \<leftarrow> astype_str_col fmt x_axis_col df_plot1;
     df_plot3 \<leftarrow> astype_str_col fmt (q_y q) df_plot2;
     df_plot4 \<leftarrow> filter_isin x_axis_col (map (\<lambda>v. Str (str_cell fmt v)) (q_x_filter q)) df_plot3;
     df_plot5 \<leftarrow> filter_isin (q_y q) (map (\<lambda>v. Str (str_cell fmt v)) (q_y_filter q)) df_plot4;
     Some (df_plot5, is_date_axis, x_axis_col, final_x_order)
   }"

definition graph_2d_stacked ::
  "query \<Rightarrow> dataframe \<Rightarrow> bool \<Rightarrow> string \<Rightarrow> string list option \<Rightarrow> outcome option" where
  \<comment> \<open>lines 942 to 961\<close>
  "graph_2d_stacked q df_plot is_date_axis x_axis_col month_range = do {
     cx \<leftarrow> get_col df_plot x_axis_col;
     final_x_order \<leftarrow> (if is_date_axis then month_range
                       else Some (order_2d q (groupby_size id (strs_of cx))));
     let df_plot1 = mask_rows (isin cx (map Str final_x_order)) df_plot;
     if len_df df_plot1 = 0 then Some (Alert info)
     else do {
       cx1 \<leftarrow> get_col df_plot1 x_axis_col;
       cy1 \<leftarrow> get_col df_plot1 (q_y q);
       let rows = groupby_size id (zip (strs_of cx1) (strs_of cy1));
       Some (Graph \<lparr>fig_data = [(x_axis_col, str_column (map (fst \<circ> fst) rows)),
                                (q_y q, str_column (map (snd \<circ> fst) rows)),
                                (''Count'', count_column (map snd rows))],
                    fig_x = x_axis_col, fig_y = ''Count'',
                    fig_categoryarray = Some final_x_order\<rparr>)
     }
   }"

definition graph_2d_plain ::
  "query \<Rightarrow> dataframe \<Rightarrow> bool \<Rightarrow> string \<Rightarrow> string list option \<Rightarrow> outcome option" where
  \<comment> \<open>lines 964 to 979; a style without a plot function raises\<close>
  "graph_2d_plain q df_plot is_date_axis x_axis_col month_range = do {
     cx \<leftarrow> get_col df_plot x_axis_col;
     let value_counts0 = groupby_size id (strs_of cx);
     let value_counts1 = (if is_date_axis then value_counts0 else totals_2d q value_counts0);
     final_x_order \<leftarrow> (if is_date_axis then month_range else Some (order_2d q value_counts0));
     let shown = filter (\<lambda>(k, n). k \<in> set final_x_order) value_counts1;
     if q_style q = Line \<or> q_style q = Area \<or> q_style q = Bar
     then Some (Graph \<lparr>fig_data = [(x_axis_col, str_column (map fst shown)),
                                     (''Count'', count_column (map snd shown))],
                         fig_x = x_axis_col, fig_y = ''Count'',
                         fig_categoryarray = Some final_x_order\<rparr>)
     else None
   }"

definition graph_2d_normal :: "(cell \<Rightarrow> string) \<Rightarrow> query \<Rightarrow> dataframe \<Rightarrow> outcome option" where
  "graph_2d_normal fmt q df =
     (if q_x q = [] \<or> q_y q = [] then Some (Alert warning)
      else do {
        (df_plot, is_date_axis, x_axis_col, month_range) \<leftarrow> df_plot_2d fmt q df;
        if len_df df_plot = 0 then Some (Alert info)
        else if q_style q = BarStacked
        then graph_2d_stacked q df_plot is_date_axis x_axis_col month_range
        else graph_2d_plain q df_plot is_date_axis x_axis_col month_range
      })"

subsection \<open>The three-dimensional branch\<close>

definition df_plot_3d :: "query \<Rightarrow> dataframe \<Rightarrow> dataframe option" where
  \<comment> \<open>lines 1009 to 1012\<close>
  "df_plot_3d q df = do {
     df_plot \<leftarrow> dropna [q_x q, q_y q, q_z q] df;
     df_plot1 \<leftarrow> filter_isin (q_x q) (q_x_filter q) df_plot;
     df_plot2 \<leftarrow> filter_isin (q_y q) (q_y_filter q) df_plot1;
     filter_isin (q_z q) (q_z_filter q) df_plot2
   }"

definition sort_values :: "string \<Rightarrow> dataframe \<Rightarrow> dataframe option" where
  \<comment> \<open>\<^verbatim>\<open>df.sort_values(by=c)\<close>: the rows in the order of the column's values, nulls last\<close>
  "sort_values c df = do {
     col \<leftarrow> get_col df c;
     let perm = sort_key (\<lambda>i. cell_ord (cells col ! i)) [0 ..< length (cells col)];
     Some (map (\<lambda>(n, cl). (n, Column (dtype cl) (map (\<lambda>i. cells cl ! i) perm))) df)
   }"

definition graph_3d :: "query \<Rightarrow> dataframe \<Rightarrow> outcome option" where
  "graph_3d q df =
     (if q_x q = [] \<or> q_y q = [] \<or> q_z q = [] then Some (Alert warning)
      else do {
        df_plot \<leftarrow> df_plot_3d q df;
        if len_df df_plot = 0 then Some (Alert info)
        else if q_style q = Line3d
        then do {
          sorted_df \<leftarrow> sort_values (q_x q) df_plot;
          Some (Graph \<lparr>fig_data = sorted_df, fig_x = q_x q, fig_y = q_y q,
                       fig_categoryarray = None\<rparr>)
        }
        else if q_style q = Bubble3d
        then do {
          cx \<leftarrow> get_col df_plot (q_x q);
          cy \<leftarrow> get_col df_plot (q_y q);
          cz \<leftarrow> get_col df_plot (q_z q);
          let rows = groupby_size (\<lambda>(a, b, c). (cell_ord a, cell_ord b, cell_ord c))
                       (zip (cells cx) (zip (cells cy) (cells cz)));
          Some (Graph \<lparr>fig_data = [(q_x q, Column (dtype cx) (map (fst \<circ> fst) rows)),
                                   (q_y q, Column (dtype cy) (map (fst \<circ> snd \<circ> fst) rows)),
                                   (q_z q, Column (dtype cz) (map (snd \<circ> snd \<circ> fst) rows)),
                                   (''Count'', count_column (map snd rows))],
                       fig_x = q_x q, fig_y = q_y q, fig_categoryarray = None\<rparr>)
        }
        else Some (Graph \<lparr>fig_data = df_plot, fig_x = q_x q, fig_y = q_y q,
                          fig_categoryarray = None\<rparr>)
      })"

subsection \<open>The two-dimensional branch, comparison mode\<close>

text \<open>
  The date selector of the comparison mode offers the \<^verbatim>\<open>datetime64\<close> columns only
  (\<^verbatim>\<open>update_graph_axis_inputs\<close>). What pandas does with a date column of another dtype
  is not modelled: the branch answers \<open>NotModelled\<close> there.
\<close>

definition melt :: "dataframe \<Rightarrow> string list \<Rightarrow> string list \<Rightarrow> dataframe option" where
  \<comment> \<open>\<^verbatim>\<open>df.melt(id_vars, value_vars, var_name='SourceColumn', value_name='ComparisonValue')\<close>\<close>
  "melt df id_vars value_vars = do {
     ids \<leftarrow> those (map (get_col df) id_vars);
     vals \<leftarrow> those (map (get_col df) value_vars);
     Some (map (\<lambda>(n, c). (n, Column (dtype c) (concat (replicate (length value_vars) (cells c)))))
             (zip id_vars ids)
           @ [(''SourceColumn'',
                 Column DObject
                   (concat (map (\<lambda>(n, c). replicate (length (cells c)) (Str n)) (zip value_vars vals)))),
              (''ComparisonValue'', Column DObject (concat (map cells vals)))])
   }"

definition nunique :: "cell list \<Rightarrow> nat" where
  \<comment> \<open>the number of distinct values, nulls not counted\<close>
  "nunique cs = length (remdups (filter notna cs))"

definition group_keys :: "column \<Rightarrow> column \<Rightarrow> (string \<times> cell) list" where
  \<comment> \<open>the (month, compared value) key of each row; a row with a null key is in no group\<close>
  "group_keys dg cv = filter (\<lambda>(d, v). notna v) (zip (strs_of dg) (cells cv))"

definition comparison_frame :: "string \<Rightarrow> ((string \<times> cell) \<times> nat) list \<Rightarrow> dataframe" where
  \<comment> \<open>the grouped table, then \<^verbatim>\<open>sort_values('DateGroup')\<close>\<close>
  "comparison_frame y_axis_col rows =
     (let sorted_rows = sort_key (\<lambda>((d, v), n). d) rows
      in [(''DateGroup'', str_column (map (fst \<circ> fst) sorted_rows)),
          (''ComparisonValue'', Column DObject (map (snd \<circ> fst) sorted_rows)),
          (y_axis_col, count_column (map snd sorted_rows))])"

definition graph_comparison :: "query \<Rightarrow> dataframe \<Rightarrow> outcome option" where
  \<comment> \<open>lines 863 to 918\<close>
  "graph_comparison q df =
     (if q_pr_date_col q = [] \<or> q_pr_group_cols q = [] \<or> q_pr_group_filter q = []
      then Some (Alert warning)
      else
        (let id_cols = [q_pr_date_col q] @
               (if q_pr_agg_col q \<noteq> [] \<and> q_pr_agg_col q \<noteq> q_pr_date_col q
                then [q_pr_agg_col q] else []);
             valid_id_cols = filter (\<lambda>c. c \<in> set (map fst df)) id_cols;
             valid_value_cols = filter (\<lambda>c. c \<in> set (map fst df)) (q_pr_group_cols q)
         in if valid_value_cols = [] then Some (Alert danger)
            else do {
              df_melted \<leftarrow> melt df valid_id_cols valid_value_cols;
              cv \<leftarrow> get_col df_melted ''ComparisonValue'';
              let df_plot = mask_rows (isin cv (q_pr_group_filter q)) df_melted;
              if len_df df_plot = 0 then Some (Alert info)
              else do {
                dc \<leftarrow> get_col df_plot (q_pr_date_col q);
                if dtype dc \<noteq> DDatetime then Some NotModelled
                else do {
                  let df_plot1 = set_col df_plot ''DateGroup''
                                   (str_column (map period_M_str (cells dc)));
                  all_dates \<leftarrow> get_col df (q_pr_date_col q);
                  if q_pr_agg_col q = []
                  then do {
                    dg \<leftarrow> get_col df_plot1 ''DateGroup'';
                    cv1 \<leftarrow> get_col df_plot1 ''ComparisonValue'';
                    full_range \<leftarrow> full_month_range all_dates;
                    Some (Graph \<lparr>fig_data = comparison_frame ''Count''
                                    (groupby_size (\<lambda>(d, v). (d, cell_ord v)) (group_keys dg cv1)),
                                 fig_x = ''DateGroup'', fig_y = ''Count'',
                                 fig_categoryarray = Some full_range\<rparr>)
                  }
                  else if truthy (q_pr_agg_side_val q)
                  then do {
                    ac \<leftarrow> get_col df_plot1 (q_pr_agg_col q);
                    let df_plot2 = mask_rows (map (\<lambda>c. cell_eq c (the (q_pr_agg_side_val q))) (cells ac))
                                     df_plot1;
                    if len_df df_plot2 = 0 then Some (Alert info)
                    else do {
                      dg \<leftarrow> get_col df_plot2 ''DateGroup'';
                      cv1 \<leftarrow> get_col df_plot2 ''ComparisonValue'';
                      full_range \<leftarrow> full_month_range all_dates;
                      Some (Graph \<lparr>fig_data = comparison_frame ''Count''
                                      (groupby_size (\<lambda>(d, v). (d, cell_ord v)) (group_keys dg cv1)),
                                   fig_x = ''DateGroup'', fig_y = ''Count'',
                                   fig_categoryarray = Some full_range\<rparr>)
                    }
                  }
                  else do {
                    dg \<leftarrow> get_col df_plot1 ''DateGroup'';
                    cv1 \<leftarrow> get_col df_plot1 ''ComparisonValue'';
                    ac \<leftarrow> get_col df_plot1 (q_pr_agg_col q);
                    full_range \<leftarrow> full_month_range all_dates;
                    let keys = sort_key (\<lambda>(d, v). (d, cell_ord v)) (remdups (group_keys dg cv1));
                    let rows = map (\<lambda>k. (k, nunique (map snd (filter (\<lambda>(k', a). k' = k \<and> notna (snd k'))
                                       (zip (zip (strs_of dg) (cells cv1)) (cells ac)))))) keys;
                    Some (Graph \<lparr>fig_data = comparison_frame (q_pr_agg_col q) rows,
                                 fig_x = ''DateGroup'', fig_y = q_pr_agg_col q,
                                 fig_categoryarray = Some full_range\<rparr>)
                  }
                }
              }
            }))"

subsection \<open>The callback\<close>

definition generate_graph ::
  "(cell \<Rightarrow> string) \<Rightarrow> store \<Rightarrow> nat \<Rightarrow> query \<Rightarrow> string \<Rightarrow> outcome" where
  \<comment> \<open>an exception inside the \<^verbatim>\<open>try\<close> block (\<open>None\<close>) becomes the red alert\<close>
  "generate_graph fmt cache n_clicks q cache_filepath =
     (if n_clicks = 0 \<or> cache_filepath = [] then GraphPreventUpdate
      else (case map_of cache cache_filepath of
          None \<Rightarrow> GraphRaised
        | Some df \<Rightarrow>
            (case (if q_g_type q = G2d \<and> q_td_mode q = ProdRepair then graph_comparison q df
                   else if q_g_type q = G2d \<and> q_td_mode q = Normal then graph_2d_normal fmt q df
                   else if q_g_type q = G1d then graph_1d fmt q df
                   else if q_g_type q = G3d then graph_3d q df
                   else Some (Alert warning)) of
               None \<Rightarrow> Alert danger
             | Some out \<Rightarrow> out)))"

section \<open>Example inputs\<close>

text \<open>Concrete tables, queries and environments on which the theorems below are run.\<close>

definition ex_parse :: "cell \<Rightarrow> timestamp option" where
  \<comment> \<open>a parser that knows three ISO dates\<close>
  "ex_parse c =
     (if c = Str ''2023-01-01'' then Some (Timestamp 2023 1 1 0)
      else if c = Str ''2023-02-01'' then Some (Timestamp 2023 2 1 0)
      else if c = Str ''2023-03-15'' then Some (Timestamp 2023 3 15 0)
      else None)"

definition ex_parts :: dataframe where
  "ex_parts =
     [(''chassis'', Column DObject [Str ''CH1'', Str ''CH2'']),
      (''part'', Column DObject [Str ''P1'', Str ''P2'']),
      (''prod'', Column DDatetime [Date (Timestamp 2023 1 1 0), Date (Timestamp 2023 2 1 0)])]"

definition ex_numbered :: dataframe where
  "ex_numbered =
     [(''chassis'', Column DObject [Str ''CH1'', Str ''CH2'']),
      (''part'', Column DOther [IntV 5, IntV 6]),
      (''prod'', Column DDatetime [Date (Timestamp 2023 1 1 0), Date (Timestamp 2023 2 1 0)])]"

definition ex_parse_us :: "cell \<Rightarrow> timestamp option" where
  \<comment> \<open>a parser for the month-first format\<close>
  "ex_parse_us c = (if c = Str ''02/01/2023'' then Some (Timestamp 2023 2 1 0) else None)"

definition ex_train_prs :: "column \<Rightarrow> (cell \<Rightarrow> timestamp option) option" where
  \<comment> \<open>the format of a column is taken from its first value\<close>
  "ex_train_prs col =
     Some (if find notna (cells col) = Some (Str ''02/01/2023'') then ex_parse_us else ex_parse)"

definition ex_training :: dataframe where
  "ex_training =
     [(''Part Number'',
         Column DObject [IntV 7, FltV 7, Str ''P2'', Str ''P3'', IntV 7, Null NaN, Str ''P4'', Str ''P5'']),
      (''Production Date'',
         Column DObject [Str ''2023-01-01'', Date (Timestamp 2023 1 1 0), Str ''2023-03-15'',
                         Str ''2023-01-01'', Str ''unknown'', Str ''2023-01-01'',
                         Date (Timestamp 2023 1 1 5), Str ''2023-01-01'']),
      (''repair date'',
         Column DObject [Str ''02/01/2023'', Date (Timestamp 2023 3 16 0), Str ''02/01/2023'',
                         Null NaN, Str ''02/01/2023'', Str ''02/01/2023'',
                         Date (Timestamp 2023 1 2 0), Str ''2023-02-01''])]"

definition ex_far_apart :: dataframe where
  "ex_far_apart =
     [(''Part Number'', Column DObject [Str ''P1'', Str ''P2'']),
      (''Production Date'',
         Column DDatetime [Date (Timestamp 1700 1 1 0), Date (Timestamp 2023 1 1 0)]),
      (''repair date'',
         Column DDatetime [Date (Timestamp 2200 1 1 0), Date (Timestamp 2023 2 1 0)])]"

definition ex_raw :: dataframe where
  \<comment> \<open>a raw table: half of \<open>half\<close> and three quarters of \<open>most\<close> are dates\<close>
  "ex_raw =
     [(''half'', Column DObject [Str ''2023-01-01'', Str '' abc '', Str ''2023-02-01'', Str ''x'']),
      (''most'', Column DObject [Str ''2023-01-01'', Str ''2023-02-01'', Str ''x'', Str ''2023-03-15'']),
      (''n'', Column DOther [IntV 1, IntV 2, IntV 3, IntV 4])]"

definition ex_prs :: "column \<Rightarrow> (cell \<Rightarrow> timestamp option) option" where
  "ex_prs col = Some ex_parse"

definition ex_mixed :: dataframe where
  \<comment> \<open>a raw table with text and a number in one column\<close>
  "ex_mixed = [(''id'', Column DObject [Str ''A1'', IntV 2]), (''n'', Column DOther [IntV 1, IntV 2])]"

definition ex_to_parquet :: "dataframe \<Rightarrow> dataframe option" where
  \<comment> \<open>a writer that raises on an object column holding both text and numbers, and
      stores a missing value of an object column as \<^verbatim>\<open>None\<close>\<close>
  "ex_to_parquet df =
     (if list_ex (\<lambda>(name, col). dtype col = DObject \<and>
            list_ex (\<lambda>c. case c of Str s \<Rightarrow> True | _ \<Rightarrow> False) (cells col) \<and>
            list_ex (\<lambda>c. case c of IntV i \<Rightarrow> True | FltV r \<Rightarrow> True | _ \<Rightarrow> False) (cells col)) df
      then None
      else Some (map (\<lambda>(name, col).
                   (name, if dtype col = DObject
                          then Column DObject (map (\<lambda>c. if isnull c then Null NoneV else c) (cells col))
                          else col)) df))"

definition ex_env :: env where
  \<comment> \<open>the content \<open>broken\<close> does not parse, \<open>mixed\<close> parses to \<open>ex_mixed\<close>, every other
      content to \<open>ex_raw\<close>\<close>
  "ex_env =
     \<lparr>secure_filename = (\<lambda>s. s),
      pd_read_csv = (\<lambda>b. if b = ''broken'' then None
                         else if b = ''mixed'' then Some ex_mixed else Some ex_raw),
      pd_read_excel = (\<lambda>b. None),
      parser = ex_prs,
      removable = (\<lambda>name. True),
      sha256_hexdigest = (\<lambda>b. ''0123456789abcdef0123456789abcdef''),
      b64decode = Some,
      to_parquet = ex_to_parquet\<rparr>"

definition ex_fs :: fs where
  "ex_fs =
     \<lparr>data_folder = [(''a.csv'', 200, ''broken''), (''b.csv'', 7, ''bytes''), (''c.csv'', 9, ''bytes'')],
      cache_folder = [(''select_a.csv_100.parquet'', ex_raw), (''select_b.csv_7.parquet'', ex_raw)],
      trace = []\<rparr>"

definition ex_fs_mixed :: fs where
  "ex_fs_mixed = \<lparr>data_folder = [(''d.csv'', 11, ''mixed'')], cache_folder = [], trace = []\<rparr>"

definition ex_uploaded :: fs where
  \<comment> \<open>the file system after a first upload of \<open>a.csv\<close>\<close>
  "ex_uploaded =
     snd (handle_save_file_confirmation ex_env 0 \<lparr>data_folder = [], cache_folder = [], trace = []\<rparr>
            1 ''no'' (Some (''bytes'', ''a.csv'')))"

section \<open>Facts about frames\<close>

lemma select_map: "select (map Q xs) (map f xs) = map f (filter Q xs)"
  by (induction xs) (auto simp: select_def)

lemma map_of_replace_same:
  "c \<in> fst ` set kvs \<Longrightarrow>
   map_of (map (\<lambda>(n, old). if n = c then (n, v) else (n, old)) kvs) c = Some v"
  by (induction kvs) auto

lemma map_of_replace_other:
  "c' \<noteq> c \<Longrightarrow>
   map_of (map (\<lambda>(n, old). if n = c then (n, v) else (n, old)) kvs) c' = map_of kvs c'"
  by (induction kvs) auto

lemma map_of_put_same: "map_of (put c v kvs) c = Some v"
proof (cases "c \<in> fst ` set kvs")
  case True
  then show ?thesis by (simp add: put_def map_of_replace_same)
next
  case False
  then have "map_of kvs c = None" by (simp add: map_of_eq_None_iff)
  with False show ?thesis by (simp add: put_def map_add_def)
qed

lemma map_of_put_other: "c' \<noteq> c \<Longrightarrow> map_of (put c v kvs) c' = map_of kvs c'"
  by (auto simp: put_def map_of_replace_other map_add_def split: option.splits)

lemma get_col_set_col: "get_col (set_col df c col) c' = (if c' = c then Some col else get_col df c')"
  by (simp add: get_col_def set_col_def map_of_put_same map_of_put_other)

lemma get_col_mask_rows:
  "get_col (mask_rows m df) c = map_option (\<lambda>col. Column (dtype col) (select m (cells col))) (get_col df c)"
  by (induction df) (auto simp: get_col_def mask_rows_def)

lemma wf_df_get_col: "wf_df n df \<Longrightarrow> get_col df c = Some col \<Longrightarrow> length (cells col) = n"
  by (auto simp: wf_df_def get_col_def list_all_iff dest!: map_of_SomeD)

lemma wf_df_set_col: "wf_df n df \<Longrightarrow> length (cells col) = n \<Longrightarrow> wf_df n (set_col df c col)"
  by (fastforce simp: wf_df_def set_col_def put_def list_all_iff split: if_splits)

lemma get_col_nonempty: "get_col df c = Some col \<Longrightarrow> df \<noteq> []"
  by (auto simp: get_col_def)

lemma length_select: "length m = length xs \<Longrightarrow> length (select m xs) = length (filter id m)"
proof (induction m xs rule: list_induct2)
  case Nil
  then show ?case by (simp add: select_def)
next
  case (Cons b bs y ys)
  then show ?case by (simp add: select_def)
qed

lemma len_df_mask_rows:
  assumes "wf_df n df" and "df \<noteq> []" and "length m = n"
  shows "len_df (mask_rows m df) = length (filter id m)"
proof -
  obtain c col rest where df: "df = (c, col) # rest" using assms(2) by (cases df) auto
  with assms(1) have "length (cells col) = n" by (simp add: wf_df_def)
  with assms(3) have "length (select m (cells col)) = length (filter id m)"
    by (simp add: length_select)
  with df show ?thesis by (simp add: len_df_def mask_rows_def)
qed

lemma rows_notna_pair:
  assumes "length (cells a) = length (cells b)"
  shows "rows_notna [a, b] = map (\<lambda>(u, v). notna u \<and> notna v) (zip (cells a) (cells b))"
proof (rule nth_equalityI)
  show "length (rows_notna [a, b]) = length (map (\<lambda>(u, v). notna u \<and> notna v) (zip (cells a) (cells b)))"
    using assms by (simp add: rows_notna_def)
next
  fix i assume "i < length (rows_notna [a, b])"
  then have "i < length (cells a)" by (simp add: rows_notna_def)
  with assms show "rows_notna [a, b] ! i = map (\<lambda>(u, v). notna u \<and> notna v) (zip (cells a) (cells b)) ! i"
    by (simp add: rows_notna_def)
qed

lemma rows_notna_triple:
  assumes "length (cells a) = length (cells b)" and "length (cells b) = length (cells c)"
  shows "rows_notna [a, b, c] =
           map (\<lambda>(u, v, w). notna u \<and> notna v \<and> notna w) (zip (cells a) (zip (cells b) (cells c)))"
proof (rule nth_equalityI)
  show "length (rows_notna [a, b, c]) =
        length (map (\<lambda>(u, v, w). notna u \<and> notna v \<and> notna w) (zip (cells a) (zip (cells b) (cells c))))"
    using assms by (simp add: rows_notna_def)
next
  fix i assume "i < length (rows_notna [a, b, c])"
  then have "i < length (cells a)" by (simp add: rows_notna_def)
  with assms show "rows_notna [a, b, c] ! i =
      map (\<lambda>(u, v, w). notna u \<and> notna v \<and> notna w) (zip (cells a) (zip (cells b) (cells c))) ! i"
    by (simp add: rows_notna_def)
qed

lemma dropna_pair:
  assumes "get_col df a = Some ca" and "get_col df b = Some cb"
  shows "dropna [a, b] df = Some (mask_rows (rows_notna [ca, cb]) df)"
  using assms by (simp add: dropna_def)

section \<open>Properties of the prediction\<close>

lemma run_prediction_PredictedD:
  assumes "run_prediction parse now load cache n_clicks ccol cval pcol pval dcol dval path = Predicted p"
  shows "\<exists>failure_model sel. load = Some failure_model \<and> parse (Str dval) = Some sel \<and>
           predict now failure_model (the cval) (the pval) sel = Predicted p"
  using assms
  by (auto simp: run_prediction_def split: if_splits option.splits)

lemma run_prediction_NoHistoricalDataD:
  assumes "run_prediction parse now load cache n_clicks ccol cval pcol pval dcol dval path
             = NoHistoricalData"
  shows "\<exists>failure_model sel. load = Some failure_model \<and> parse (Str dval) = Some sel \<and>
           predict now failure_model (the cval) (the pval) sel = NoHistoricalData"
  using assms
  by (auto simp: run_prediction_def split: if_splits option.splits)

lemma predict_PredictedD:
  assumes "predict now fm cv pv sel = Predicted p"
  shows "avg_ttf_of fm pv = Some (p_avg_ttf p) \<and>
         p_days_in_service p = days_since now sel \<and>
         p_remaining_life p = py_int (p_avg_ttf p - real_of_int (p_days_in_service p)) \<and>
         p_risk p = classify (p_remaining_life p)"
  using assms
  by (auto simp: predict_def Let_def split: option.splits)

lemma py_int_whole: "r \<in> \<int> \<Longrightarrow> real_of_int (py_int r) = r"
  by (auto simp: py_int_def elim!: Ints_cases)

lemma days_since_floor:
  "days_since a b = \<lfloor>real_of_int (ts_ns a - ts_ns b) / real_of_int ns_per_day\<rfloor>"
  unfolding days_since_def
  using floor_divide_of_int_eq [of "ts_ns a - ts_ns b" ns_per_day, where ?'a = real] by simp

lemma avg_ttf_of_cases:
  assumes "avg_ttf_of fm pv = Some a"
  shows "case fm of
           Dict d \<Rightarrow> (\<exists>k. find (\<lambda>(k, v). py_eq k pv) d = Some (k, a))
         | NotDict \<Rightarrow> a = 365"
  using assms by (cases fm) (auto simp: avg_ttf_of_def dict_get_def)

text \<open>
  Claim C7. Whenever \<^verbatim>\<open>run_prediction\<close> answers with a prediction, the model artifact was
  loaded and the part instance located; the average time to failure is the value the
  dictionary holds under the first key equal to the selected part (365 for an artifact
  that is not a dictionary); the days in service are the whole days between the call
  time and the production date; the remaining life is \<^verbatim>\<open>int(avg_ttf - days_in_service)\<close>,
  the difference truncated towards zero, which is the difference itself whenever the
  average is a whole number; and the risk is High Risk for a remaining life below zero,
  Failure Expected Soon from 0 to 30 and Low Risk above 30.
\<close>

theorem prediction_remaining_life_and_risk:
  assumes "run_prediction parse now load cache n_clicks ccol cval pcol pval dcol dval path = Predicted p"
  shows "\<exists>failure_model sel.
           load = Some failure_model \<and> parse (Str dval) = Some sel \<and>
           (case failure_model of
              Dict d \<Rightarrow> (\<exists>k. find (\<lambda>(k, v). py_eq k (the pval)) d = Some (k, p_avg_ttf p))
            | NotDict \<Rightarrow> p_avg_ttf p = 365) \<and>
           p_days_in_service p = \<lfloor>real_of_int (ts_ns now - ts_ns sel) / real_of_int ns_per_day\<rfloor> \<and>
           (0 \<le> p_avg_ttf p - real_of_int (p_days_in_service p) \<longrightarrow>
              p_remaining_life p = \<lfloor>p_avg_ttf p - real_of_int (p_days_in_service p)\<rfloor>) \<and>
           (p_avg_ttf p - real_of_int (p_days_in_service p) < 0 \<longrightarrow>
              p_remaining_life p = \<lceil>p_avg_ttf p - real_of_int (p_days_in_service p)\<rceil>) \<and>
           (p_avg_ttf p \<in> \<int> \<longrightarrow>
              real_of_int (p_remaining_life p) = p_avg_ttf p - real_of_int (p_days_in_service p)) \<and>
           (p_remaining_life p < 0 \<longrightarrow> p_risk p = HighRisk) \<and>
           (0 \<le> p_remaining_life p \<and> p_remaining_life p \<le> 30 \<longrightarrow> p_risk p = FailureExpectedSoon) \<and>
           (30 < p_remaining_life p \<longrightarrow> p_risk p = LowRisk)"
proof -
  from run_prediction_PredictedD [OF assms] obtain failure_model sel where
    l: "load = Some failure_model" and s: "parse (Str dval) = Some sel" and
    pr: "predict now failure_model (the cval) (the pval) sel = Predicted p" by blast
  note d = predict_PredictedD [OF pr]
  have avg: "case failure_model of
              Dict d \<Rightarrow> (\<exists>k. find (\<lambda>(k, v). py_eq k (the pval)) d = Some (k, p_avg_ttf p))
            | NotDict \<Rightarrow> p_avg_ttf p = 365"
    using d avg_ttf_of_cases by blast
  have days: "p_days_in_service p = \<lfloor>real_of_int (ts_ns now - ts_ns sel) / real_of_int ns_per_day\<rfloor>"
    using d days_since_floor by simp
  have rl: "p_remaining_life p = py_int (p_avg_ttf p - real_of_int (p_days_in_service p))"
    using d by simp
  have whole: "real_of_int (p_remaining_life p) = p_avg_ttf p - real_of_int (p_days_in_service p)"
    if "p_avg_ttf p \<in> \<int>"
  proof -
    from that have "p_avg_ttf p - real_of_int (p_days_in_service p) \<in> \<int>" by simp
    then show ?thesis using rl py_int_whole by simp
  qed
  have risk: "p_risk p = classify (p_remaining_life p)" using d by simp
  show ?thesis
    using l s avg days rl whole risk by (auto simp: py_int_def classify_def)
qed

text \<open>
  A run on a table whose part numbers are numbers: the dictionary holds the average under
  the key \<open>5.0\<close>, and the prediction for part \<open>5\<close> finds it.
\<close>

theorem prediction_remaining_life_and_risk_witness:
  "\<exists>p. run_prediction ex_parse (Timestamp 2024 2 5 3600)
          (Some (Dict [(Str ''P1'', 730), (FltV 5, 410), (IntV 6, 90)]))
          [(''c.parquet'', ex_numbered)] 1 ''chassis'' (Some (Str ''CH1'')) ''part'' (Some (IntV 5))
          ''prod'' ''2023-01-01'' ''c.parquet'' = Predicted p \<and>
        p_avg_ttf p = 410 \<and> p_days_in_service p = 400 \<and> p_remaining_life p = 10 \<and>
        p_risk p = FailureExpectedSoon \<and>
        (\<exists>k. find (\<lambda>(k, v). py_eq k (IntV 5)) [(Str ''P1'', 730), (FltV 5, 410), (IntV 6, 90)]
               = Some (k, p_avg_ttf p)) \<and>
        p_days_in_service p
          = \<lfloor>real_of_int (ts_ns (Timestamp 2024 2 5 3600) - ts_ns (Timestamp 2023 1 1 0))
               / real_of_int ns_per_day\<rfloor>"
proof -
  let ?p = "\<lparr>p_part = IntV 5, p_chassis = Str ''CH1'', p_production = Timestamp 2023 1 1 0,
              p_avg_ttf = 410, p_days_in_service = 400, p_remaining_life = 10,
              p_risk = FailureExpectedSoon\<rparr>"
  have run: "run_prediction ex_parse (Timestamp 2024 2 5 3600)
          (Some (Dict [(Str ''P1'', 730), (FltV 5, 410), (IntV 6, 90)]))
          [(''c.parquet'', ex_numbered)] 1 ''chassis'' (Some (Str ''CH1'')) ''part'' (Some (IntV 5))
          ''prod'' ''2023-01-01'' ''c.parquet'' = Predicted ?p"
    by code_simp
  have sel: "ex_parse (Str ''2023-01-01'') = Some (Timestamp 2023 1 1 0)"
    by (simp add: ex_parse_def)
  from prediction_remaining_life_and_risk [OF run]
  have "(\<exists>k. find (\<lambda>(k, v). py_eq k (IntV 5)) [(Str ''P1'', 730), (FltV 5, 410), (IntV 6, 90)]
               = Some (k, p_avg_ttf ?p)) \<and>
        p_days_in_service ?p
          = \<lfloor>real_of_int (ts_ns (Timestamp 2024 2 5 3600) - ts_ns (Timestamp 2023 1 1 0))
               / real_of_int ns_per_day\<rfloor>"
    using sel by auto
  with run show ?thesis by simp
qed

text \<open>
  With an average of 399.5 days and 400 days in service the difference is \<open>-0.5\<close>, below
  zero, yet the remaining life is 0 and the answer is Failure Expected Soon.
\<close>

theorem truncated_remaining_life_counterexample:
  "run_prediction ex_parse (Timestamp 2024 2 5 3600)
      (Some (Dict [(Str ''P0'', 120), (Str ''P1'', 799 / 2)]))
      [(''c.parquet'', ex_parts)] 1 ''chassis'' (Some (Str ''CH1'')) ''part'' (Some (Str ''P1''))
      ''prod'' ''2023-01-01'' ''c.parquet''
     = Predicted \<lparr>p_part = Str ''P1'', p_chassis = Str ''CH1'', p_production = Timestamp 2023 1 1 0,
         p_avg_ttf = 799 / 2, p_days_in_service = 400, p_remaining_life = 0,
         p_risk = FailureExpectedSoon\<rparr> \<and>
   (799 / 2 - 400 :: real) < 0"
  by code_simp

text \<open>The three risk bands on a dictionary holding a whole-number average.\<close>

lemma prediction_spec_examples:
  "run_prediction ex_parse (Timestamp 2024 2 5 3600) (Some (Dict [(Str ''P1'', 365)]))
      [(''c.parquet'', ex_parts)] 1 ''chassis'' (Some (Str ''CH1'')) ''part'' (Some (Str ''P1''))
      ''prod'' ''2023-01-01'' ''c.parquet''
     = Predicted \<lparr>p_part = Str ''P1'', p_chassis = Str ''CH1'', p_production = Timestamp 2023 1 1 0,
         p_avg_ttf = 365, p_days_in_service = 400, p_remaining_life = - 35, p_risk = HighRisk\<rparr>"
  "run_prediction ex_parse (Timestamp 2023 12 7 0) (Some (Dict [(Str ''P1'', 365)]))
      [(''c.parquet'', ex_parts)] 1 ''chassis'' (Some (Str ''CH1'')) ''part'' (Some (Str ''P1''))
      ''prod'' ''2023-01-01'' ''c.parquet''
     = Predicted \<lparr>p_part = Str ''P1'', p_chassis = Str ''CH1'', p_production = Timestamp 2023 1 1 0,
         p_avg_ttf = 365, p_days_in_service = 340, p_remaining_life = 25,
         p_risk = FailureExpectedSoon\<rparr>"
  "run_prediction ex_parse (Timestamp 2023 1 11 7200) (Some (Dict [(Str ''P1'', 365)]))
      [(''c.parquet'', ex_parts)] 1 ''chassis'' (Some (Str ''CH1'')) ''part'' (Some (Str ''P1''))
      ''prod'' ''2023-01-01'' ''c.parquet''
     = Predicted \<lparr>p_part = Str ''P1'', p_chassis = Str ''CH1'', p_production = Timestamp 2023 1 1 0,
         p_avg_ttf = 365, p_days_in_service = 10, p_remaining_life = 355, p_risk = LowRisk\<rparr>"
  by code_simp+

text \<open>
  Claim C10. An artifact that is not a dictionary never leads to the missing-history
  answer: once the part instance is located the prediction is made with an average of
  365 days, whatever the part. The missing-history answer comes only from a dictionary
  that has no entry for the selected part.
\<close>

theorem non_dict_artifact_defaults_to_365:
  "(\<exists>p. predict now NotDict cv pv sel = Predicted p \<and> p_avg_ttf p = 365) \<and>
   (predict now fm cv pv sel = NoHistoricalData \<longleftrightarrow> (\<exists>d. fm = Dict d \<and> dict_get d pv = None)) \<and>
   run_prediction parse now (Some NotDict) cache n_clicks ccol cval pcol pval dcol dval path
     \<noteq> NoHistoricalData \<and>
   (run_prediction parse now load cache n_clicks ccol cval pcol pval dcol dval path = NoHistoricalData
      \<longrightarrow> (\<exists>d. load = Some (Dict d) \<and> dict_get d (the pval) = None))"
proof -
  have a: "\<exists>p. predict now NotDict cv pv sel = Predicted p \<and> p_avg_ttf p = 365"
    by (simp add: predict_def avg_ttf_of_def Let_def)
  have b: "predict now fm' cv' pv' sel' = NoHistoricalData \<longleftrightarrow>
             (\<exists>d. fm' = Dict d \<and> dict_get d pv' = None)" for fm' cv' pv' sel'
    by (cases fm') (auto simp: predict_def avg_ttf_of_def Let_def split: option.splits)
  have c: "\<exists>d. load' = Some (Dict d) \<and> dict_get d (the pval) = None"
    if "run_prediction parse now load' cache n_clicks ccol cval pcol pval dcol dval path
          = NoHistoricalData" for load'
    using run_prediction_NoHistoricalDataD [OF that] b by auto
  have d: "run_prediction parse now (Some NotDict) cache n_clicks ccol cval pcol pval dcol dval path
             \<noteq> NoHistoricalData"
    using c [of "Some NotDict"] by auto
  show ?thesis using a b c d by blast
qed

theorem non_dict_artifact_defaults_to_365_witness:
  "run_prediction ex_parse (Timestamp 2024 2 5 3600) (Some NotDict)
      [(''c.parquet'', ex_parts)] 1 ''chassis'' (Some (Str ''CH1'')) ''part'' (Some (Str ''P1''))
      ''prod'' ''2023-01-01'' ''c.parquet''
     = Predicted \<lparr>p_part = Str ''P1'', p_chassis = Str ''CH1'', p_production = Timestamp 2023 1 1 0,
         p_avg_ttf = 365, p_days_in_service = 400, p_remaining_life = - 35, p_risk = HighRisk\<rparr> \<and>
   run_prediction ex_parse (Timestamp 2024 2 5 3600) (Some (Dict [(Str ''P2'', 100)]))
      [(''c.parquet'', ex_parts)] 1 ''chassis'' (Some (Str ''CH1'')) ''part'' (Some (Str ''P1''))
      ''prod'' ''2023-01-01'' ''c.parquet'' = NoHistoricalData \<and>
   (\<exists>d. Some (Dict [(Str ''P2'', 100)]) = Some (Dict d) \<and> dict_get d (the (Some (Str ''P1''))) = None)"
proof -
  have r1: "run_prediction ex_parse (Timestamp 2024 2 5 3600) (Some NotDict)
      [(''c.parquet'', ex_parts)] 1 ''chassis'' (Some (Str ''CH1'')) ''part'' (Some (Str ''P1''))
      ''prod'' ''2023-01-01'' ''c.parquet''
     = Predicted \<lparr>p_part = Str ''P1'', p_chassis = Str ''CH1'', p_production = Timestamp 2023 1 1 0,
         p_avg_ttf = 365, p_days_in_service = 400, p_remaining_life = - 35, p_risk = HighRisk\<rparr>"
    by code_simp
  have r2: "run_prediction ex_parse (Timestamp 2024 2 5 3600) (Some (Dict [(Str ''P2'', 100)]))
      [(''c.parquet'', ex_parts)] 1 ''chassis'' (Some (Str ''CH1'')) ''part'' (Some (Str ''P1''))
      ''prod'' ''2023-01-01'' ''c.parquet'' = NoHistoricalData"
    by code_simp
  from non_dict_artifact_defaults_to_365 [where parse = ex_parse and now = "Timestamp 2024 2 5 3600"
      and cache = "[(''c.parquet'', ex_parts)]" and n_clicks = 1 and ccol = "''chassis''"
      and cval = "Some (Str ''CH1'')" and pcol = "''part''" and pval = "Some (Str ''P1'')"
      and dcol = "''prod''" and dval = "''2023-01-01''" and path = "''c.parquet''"
      and load = "Some (Dict [(Str ''P2'', 100)])"] r2
  have "\<exists>d. Some (Dict [(Str ''P2'', 100)]) = Some (Dict d) \<and> dict_get d (the (Some (Str ''P1''))) = None"
    by blast
  with r1 r2 show ?thesis by blast
qed

section \<open>Properties of the training step\<close>

lemma zip3_maps:
  assumes "length ks = length ps" and "length ps = length rs"
  shows "ks = map fst (zip ks (zip ps rs))"
    and "ps = map (fst \<circ> snd) (zip ks (zip ps rs))"
    and "rs = map (snd \<circ> snd) (zip ks (zip ps rs))"
  using assms by (auto simp: list_eq_iff_nth_eq)

lemma coerce_cell_spec_date:
  "coerce_cell parse c = (case spec_date parse c of Some t \<Rightarrow> Date t | None \<Rightarrow> Null NaT)"
  by (cases c) (auto simp: coerce_cell_def to_datetime_cell_def spec_date_def split: option.splits)

lemma those_map_Some:
  "(\<And>x. x \<in> set xs \<Longrightarrow> F x = Some (G x)) \<Longrightarrow> those (map F xs) = Some (map G xs)"
  by (induction xs) auto

lemma those_map_None:
  "x \<in> set xs \<Longrightarrow> F x = None \<Longrightarrow> those (map F xs) = None"
  by (induction xs) (auto split: option.splits)

lemma timedelta_days_None:
  "timedelta_days a b = None \<longleftrightarrow> 2 ^ 63 \<le> \<bar>ts_ns a - ts_ns b\<bar>"
  by (auto simp: timedelta_days_def Let_def)

lemma timedelta_days_Some:
  assumes "\<not> 2 ^ 63 \<le> \<bar>ts_ns a - ts_ns b\<bar>"
  shows "timedelta_days a b = Some (spec_days a b)"
proof -
  have "(ts_ns a - ts_ns b) div ns_per_day = spec_days a b"
    unfolding spec_days_def
    using floor_divide_of_int_eq [of "ts_ns a - ts_ns b" ns_per_day, where ?'a = real] by simp
  then show ?thesis using assms by (auto simp: timedelta_days_def Let_def)
qed

lemma py_key_idem [simp]: "py_key (py_key c) = py_key c"
  by (cases c) (auto simp: py_key_def)

lemma notna_py_key [simp]: "notna (py_key c) = notna c"
  by (cases c) (auto simp: py_key_def notna_def)

lemma find_keyed:
  "find (\<lambda>(k', v). k' = a) (map (\<lambda>k. (k, F k)) ks) = (if a \<in> set ks then Some (a, F a) else None)"
  by (induction ks) auto

lemma dict_get_groupby_mean_round:
  "dict_get (groupby_mean_round keys vals) k =
     (if notna k \<and> (\<exists>k' \<in> set keys. py_eq k' k)
      then Some (round_half_even (mean (group_values keys vals (py_key k)))) else None)"
proof -
  let ?ks = "uniq (map py_key (filter notna keys))"
  let ?F = "\<lambda>k. round_half_even (mean (group_values keys vals k))"
  have canon: "k' \<in> set ?ks \<Longrightarrow> py_key k' = k'" for k'
    by (auto simp: uniq_def)
  have "find (\<lambda>(k', v). py_eq k' k) (map (\<lambda>k. (k, ?F k)) ?ks)
          = find (\<lambda>(k', v). k' = py_key k) (map (\<lambda>k. (k, ?F k)) ?ks)"
    by (rule find_cong) (auto simp: py_eq_def canon)
  then have "dict_get (groupby_mean_round keys vals) k =
               (if py_key k \<in> set ?ks then Some (?F (py_key k)) else None)"
    by (simp add: dict_get_def groupby_mean_round_def find_keyed)
  moreover have "py_key k \<in> set ?ks \<longleftrightarrow> notna k \<and> (\<exists>k' \<in> set keys. py_eq k' k)"
  proof
    assume "py_key k \<in> set ?ks"
    then obtain k' where "k' \<in> set keys" "notna k'" "py_key k = py_key k'"
      by (auto simp: uniq_def)
    then show "notna k \<and> (\<exists>k' \<in> set keys. py_eq k' k)"
      using notna_py_key [of k] notna_py_key [of k'] by (auto simp: py_eq_def)
  next
    assume "notna k \<and> (\<exists>k' \<in> set keys. py_eq k' k)"
    then obtain k' where "k' \<in> set keys" "py_key k' = py_key k" "notna k"
      by (auto simp: py_eq_def)
    moreover from this have "notna k'" using notna_py_key [of k] notna_py_key [of k'] by simp
    ultimately have "py_key k' \<in> py_key ` {c \<in> set keys. notna c}" by blast
    then show "py_key k \<in> set ?ks"
      using \<open>py_key k' = py_key k\<close> by (simp add: uniq_def)
  qed
  ultimately show ?thesis by simp
qed

lemma group_values_rows:
  "group_values (map fst rs) (map (\<lambda>r. IntV (snd r)) rs) (py_key k)
     = map snd (filter (\<lambda>(k', t). py_eq k' k) rs)"
  by (induction rs) (auto simp: group_values_def py_eq_def)

lemma groupby_mean_round_empty:
  "groupby_mean_round keys vals = [] \<longleftrightarrow> list_all isnull keys"
  by (auto simp: groupby_mean_round_def uniq_def list_all_iff notna_def filter_empty_conv)

lemma round_half_even_whole: "round_half_even v \<in> \<int>"
  by (simp add: round_half_even_def Let_def)

lemma round_half_even_nearest: "\<bar>round_half_even v - v\<bar> \<le> 1 / 2"
proof -
  have "of_int \<lfloor>v\<rfloor> \<le> v" "v < of_int \<lfloor>v\<rfloor> + 1" by linarith+
  then show ?thesis by (auto simp: round_half_even_def Let_def)
qed

lemma round_half_even_tie:
  "round_half_even (of_int j + 1 / 2) = (if even j then of_int j else of_int j + 1)"
proof -
  have "\<lfloor>(of_int j + 1 / 2 :: real)\<rfloor> = j" by linarith
  then show ?thesis by (simp add: round_half_even_def Let_def)
qed

lemma notna_coerce_cell: "notna (coerce_cell parse c) \<longleftrightarrow> spec_date parse c \<noteq> None"
  by (simp add: coerce_cell_spec_date notna_def split: option.splits)

lemma train_pipeline:
  fixes prs :: "column \<Rightarrow> (cell \<Rightarrow> timestamp option) option"
  assumes wf: "wf_df n df0"
      and pc: "get_col df0 ''Production Date'' = Some pc"
      and rc: "get_col df0 ''repair date'' = Some rc"
      and kc: "get_col df0 ''Part Number'' = Some kc"
      and pp: "prs pc = Some pp" and pr: "prs rc = Some pr"
  defines "rows \<equiv> zip (cells kc) (zip (cells pc) (cells rc))"
  defines "dated \<equiv> spec_dated_rows pp pr rows"
  defines "ttfs \<equiv> spec_ttf_rows dated"
  shows "train_and_save_model prs (Some df0) =
           (if dated = [] then NoValidRecords
            else if list_ex spec_out_of_range dated then TrainRaised
            else if groupby_mean_round (map fst ttfs) (map (\<lambda>r. IntV (snd r)) ttfs) = [] then NoModel
            else Saved (groupby_mean_round (map fst ttfs) (map (\<lambda>r. IntV (snd r)) ttfs)))"
proof -
  define f where "f = (\<lambda>(k :: cell, p, r).
      case (spec_date pp p, spec_date pr r) of
        (Some tp, Some tr) \<Rightarrow> Some (k, tp, tr) | _ \<Rightarrow> None)"
  define u where "u = the \<circ> f"
  define rows1 where "rows1 = filter (\<lambda>row. f row \<noteq> None) rows"
  have "spec_dated_rows pp pr rows = List.map_filter f rows"
    by (simp add: spec_dated_rows_def f_def)
  then have dated: "dated = map u rows1"
    by (simp add: dated_def map_filter_def u_def rows1_def)
  have f1: "f row = Some (u row)" if "row \<in> set rows1" for row
    using that by (auto simp: rows1_def u_def)
  have fD: "fst row = k \<and> spec_date pp (fst (snd row)) = Some tp \<and> spec_date pr (snd (snd row)) = Some tr"
    if "f row = Some (k, tp, tr)" for row k tp tr
    using that by (cases row) (auto simp: f_def split: option.splits)
  have lk: "length (cells kc) = n" and lp: "length (cells pc) = n" and lr: "length (cells rc) = n"
    using wf pc rc kc by (auto dest: wf_df_get_col)
  have ks: "cells kc = map fst rows" and ps: "cells pc = map (fst \<circ> snd) rows"
    and rs: "cells rc = map (snd \<circ> snd) rows"
    unfolding rows_def using zip3_maps [of "cells kc" "cells pc" "cells rc"] lk lp lr by simp_all
  have lrows: "length rows = n" by (simp add: rows_def lk lp lr)
  define pc' where "pc' = to_datetime_coerce pp pc"
  define rc' where "rc' = to_datetime_coerce pr rc"
  define df2 where "df2 = set_col (set_col df0 ''Production Date'' pc') ''repair date'' rc'"
  have cpc': "cells pc' = map (\<lambda>row. coerce_cell pp (fst (snd row))) rows"
    by (simp add: pc'_def to_datetime_coerce_def ps)
  have crc': "cells rc' = map (\<lambda>row. coerce_cell pr (snd (snd row))) rows"
    by (simp add: rc'_def to_datetime_coerce_def rs)
  have dpc': "dtype pc' = DDatetime" and drc': "dtype rc' = DDatetime"
    by (simp_all add: pc'_def rc'_def to_datetime_coerce_def)
  have wf2: "wf_df n df2"
    unfolding df2_def
    by (intro wf_df_set_col wf) (simp_all add: cpc' crc' lrows)
  have g2p: "get_col df2 ''Production Date'' = Some pc'"
    and g2r: "get_col df2 ''repair date'' = Some rc'"
    and g2k: "get_col df2 ''Part Number'' = Some kc"
    by (simp_all add: df2_def get_col_set_col kc)
  have ne2: "df2 \<noteq> []" using g2k by (rule get_col_nonempty)
  define m1 where "m1 = map (\<lambda>row. f row \<noteq> None) rows"
  have q1: "(notna (coerce_cell pp (fst (snd row))) \<and> notna (coerce_cell pr (snd (snd row))))
              = (f row \<noteq> None)" for row
    by (cases row) (auto simp: f_def notna_coerce_cell split: option.splits)
  have m1: "rows_notna [pc', rc'] = m1"
    by (subst rows_notna_pair)
       (auto simp: cpc' crc' m1_def zip_map_map q1 intro!: nth_equalityI)
  define df_failures where "df_failures = mask_rows m1 df2"
  have ff: "failures_frame prs df0 = Some df_failures"
    by (simp add: failures_frame_def pc pp get_col_set_col rc pr dropna_def Let_def
        pc'_def [symmetric] rc'_def [symmetric] df2_def [symmetric] g2p g2r m1 df_failures_def)
  have len_f: "len_df df_failures = length rows1"
    unfolding df_failures_def
    by (subst len_df_mask_rows [OF wf2 ne2]) (simp_all add: m1_def lrows rows1_def filter_map comp_def)
  have ld: "length dated = length rows1" by (simp add: dated)
  have fr: "get_col df_failures ''repair date'' =
              Some (Column DDatetime (map (\<lambda>row. coerce_cell pr (snd (snd row))) rows1))"
    by (simp add: df_failures_def get_col_mask_rows g2r crc' drc' m1_def select_map rows1_def)
  have fp: "get_col df_failures ''Production Date'' =
              Some (Column DDatetime (map (\<lambda>row. coerce_cell pp (fst (snd row))) rows1))"
    by (simp add: df_failures_def get_col_mask_rows g2p cpc' dpc' m1_def select_map rows1_def)
  have fk: "get_col df_failures ''Part Number'' = Some (Column (dtype kc) (map fst rows1))"
    by (simp add: df_failures_def get_col_mask_rows g2k ks m1_def select_map rows1_def)
  define tf where "tf = (\<lambda>row :: cell \<times> cell \<times> cell.
      time_to_failure (coerce_cell pr (snd (snd row))) (coerce_cell pp (fst (snd row))))"
  have zipped: "map (\<lambda>(a, b). time_to_failure a b)
               (zip (map (\<lambda>row. coerce_cell pr (snd (snd row))) rows1)
                    (map (\<lambda>row. coerce_cell pp (fst (snd row))) rows1)) = map tf rows1"
    by (auto simp: tf_def zip_map_map intro!: nth_equalityI)
  have tf_row: "tf row = map_option IntV (timedelta_days (snd (snd (u row))) (fst (snd (u row))))"
    if "row \<in> set rows1" for row
  proof -
    obtain k tp tr where ur: "u row = (k, tp, tr)" by (cases "u row") auto
    with f1 [OF that] fD have "spec_date pp (fst (snd row)) = Some tp"
      "spec_date pr (snd (snd row)) = Some tr" by auto
    then show ?thesis by (simp add: tf_def time_to_failure_def coerce_cell_spec_date ur)
  qed
  show ?thesis
  proof (cases "rows1 = []")
    case True
    then show ?thesis using ff len_f dated by (simp add: train_and_save_model_def)
  next
    case ne: False
    show ?thesis
    proof (cases "list_ex spec_out_of_range dated")
      case True
      then obtain row where row: "row \<in> set rows1" and o: "spec_out_of_range (u row)"
        by (auto simp: dated list_ex_iff)
      have "tf row = None"
        using o tf_row [OF row]
        by (cases "u row") (auto simp: spec_out_of_range_def timedelta_days_None)
      then have "those (map tf rows1) = None" using row by (rule those_map_None [rotated])
      then have "ttf_frame df_failures = None"
        by (simp add: ttf_frame_def fr fp zipped)
      then show ?thesis
        using ff len_f ne True dated by (simp add: train_and_save_model_def)
    next
      case False
      define t where "t = (\<lambda>row. IntV (spec_days (snd (snd (u row))) (fst (snd (u row)))))"
      have "tf row = Some (t row)" if "row \<in> set rows1" for row
      proof -
        have "\<not> spec_out_of_range (u row)" using False that by (auto simp: dated list_ex_iff)
        then have "timedelta_days (snd (snd (u row))) (fst (snd (u row)))
                     = Some (spec_days (snd (snd (u row))) (fst (snd (u row))))"
          by (cases "u row") (auto simp: spec_out_of_range_def intro!: timedelta_days_Some)
        then show ?thesis using tf_row [OF that] by (simp add: t_def)
      qed
      then have th: "those (map tf rows1) = Some (map t rows1)" by (rule those_map_Some)
      define rows2 where "rows2 = filter (\<lambda>row. ge_zero (t row)) rows1"
      define df4 where
        "df4 = mask_rows (map (\<lambda>row. ge_zero (t row)) rows1)
                 (set_col df_failures ''TimeToFailure'' (Column DOther (map t rows1)))"
      have tff: "ttf_frame df_failures = Some df4"
        by (simp add: ttf_frame_def fr fp zipped th df4_def comp_def)
      have g4k: "get_col df4 ''Part Number'' = Some (Column (dtype kc) (map fst rows2))"
        by (simp add: df4_def get_col_mask_rows get_col_set_col fk select_map rows2_def)
      have g4v: "get_col df4 ''TimeToFailure'' = Some (Column DOther (map t rows2))"
        by (simp add: df4_def get_col_mask_rows get_col_set_col select_map rows2_def)
      have ttfs_rows: "ttfs = map (\<lambda>row. (fst (u row), spec_days (snd (snd (u row))) (fst (snd (u row))))) rows2"
        by (simp add: ttfs_def spec_ttf_rows_def dated filter_map comp_def case_prod_beta
            rows2_def t_def ge_zero_def)
      have keys: "map fst ttfs = map fst rows2"
      proof -
        have "fst (u row) = fst row" if "row \<in> set rows2" for row
        proof -
          from that have "row \<in> set rows1" by (simp add: rows2_def)
          from f1 [OF this] fD [of row "fst (u row)" "fst (snd (u row))" "snd (snd (u row))"]
          show ?thesis by simp
        qed
        then show ?thesis by (simp add: ttfs_rows comp_def)
      qed
      have vals: "map (\<lambda>r. IntV (snd r)) ttfs = map t rows2"
        by (simp add: ttfs_rows comp_def t_def)
      have mf: "model_of_frame df4 =
                  Some (groupby_mean_round (map fst ttfs) (map (\<lambda>r. IntV (snd r)) ttfs))"
        by (simp add: model_of_frame_def g4k g4v keys vals)
      show ?thesis
        using ff len_f ne False dated tff mf by (simp add: train_and_save_model_def)
    qed
  qed
qed

lemma dict_get_model:
  "dict_get (groupby_mean_round (map fst ttfs) (map (\<lambda>r. IntV (snd r)) ttfs)) k =
     (if notna k \<and> (\<exists>k' \<in> fst ` set ttfs. py_eq k' k)
      then Some (round_half_even (spec_mean_ttf ttfs k)) else None)"
  by (simp add: dict_get_groupby_mean_round group_values_rows spec_mean_ttf_def)

lemma round_half_even_facts:
  "round_half_even v \<in> \<int> \<and> \<bar>round_half_even v - v\<bar> \<le> 1 / 2 \<and>
   round_half_even (of_int j + 1 / 2) = (if even j then of_int j else of_int j + 1)"
  using round_half_even_whole [of v] round_half_even_nearest [of v] round_half_even_tie [of j]
  by blast

text \<open>
  Claim C8. On a table with the three columns, the training step converts both date
  columns (a value that does not parse becomes missing), keeps the rows that then have
  both dates, takes repair minus production in whole days (rounded down), discards the
  negative values, groups the rest by part number (rows without one are left out, equal
  numbers are one part), and saves the mapping from each part to the mean rounded to a
  whole day: the nearest one, a tie to the even neighbour. It stops without saving when
  no row has both dates or no kept row has a part number, and it raises, saving nothing,
  when some row with both dates has them \<open>2\<^sup>6\<^sup>3\<close> nanoseconds (about 292 years) or more
  apart.
\<close>

theorem training_mean_time_to_failure:
  fixes prs :: "column \<Rightarrow> (cell \<Rightarrow> timestamp option) option"
  assumes wf: "wf_df n df0"
      and pc: "get_col df0 ''Production Date'' = Some pc"
      and rc: "get_col df0 ''repair date'' = Some rc"
      and kc: "get_col df0 ''Part Number'' = Some kc"
      and pp: "prs pc = Some pp"
      and pr: "prs rc = Some pr"
  defines "rows \<equiv> zip (cells kc) (zip (cells pc) (cells rc))"
  defines "dated \<equiv> spec_dated_rows pp pr rows"
  defines "ttfs \<equiv> spec_ttf_rows dated"
  shows "(dated = [] \<longrightarrow> train_and_save_model prs (Some df0) = NoValidRecords) \<and>
         (list_ex spec_out_of_range dated \<longrightarrow> train_and_save_model prs (Some df0) = TrainRaised) \<and>
         (dated \<noteq> [] \<and> \<not> list_ex spec_out_of_range dated \<and> list_all isnull (map fst ttfs) \<longrightarrow>
            train_and_save_model prs (Some df0) = NoModel) \<and>
         (\<not> list_ex spec_out_of_range dated \<and> \<not> list_all isnull (map fst ttfs) \<longrightarrow>
            (\<exists>m. train_and_save_model prs (Some df0) = Saved m \<and>
                 (\<forall>k. dict_get m k =
                        (if notna k \<and> (\<exists>k' \<in> fst ` set ttfs. py_eq k' k)
                         then Some (round_half_even (spec_mean_ttf ttfs k)) else None)))) \<and>
         (\<forall>v j. round_half_even v \<in> \<int> \<and> \<bar>round_half_even v - v\<bar> \<le> 1 / 2 \<and>
                round_half_even (of_int j + 1 / 2) = (if even j then of_int j else of_int j + 1))"
proof -
  note p = train_pipeline [OF wf pc rc kc pp pr, folded rows_def, folded dated_def,
      folded ttfs_def]
  have a: "dated = [] \<longrightarrow> train_and_save_model prs (Some df0) = NoValidRecords"
    using p by simp
  have ne: "dated \<noteq> []" if "list_ex spec_out_of_range dated"
    using that by (auto simp: list_ex_iff)
  have b: "list_ex spec_out_of_range dated \<longrightarrow> train_and_save_model prs (Some df0) = TrainRaised"
    using p ne by simp
  have c: "dated \<noteq> [] \<and> \<not> list_ex spec_out_of_range dated \<and> list_all isnull (map fst ttfs) \<longrightarrow>
            train_and_save_model prs (Some df0) = NoModel"
    using p by (simp add: groupby_mean_round_empty)
  have ne': "dated \<noteq> []" if "\<not> list_all isnull (map fst ttfs)"
    using that by (auto simp: ttfs_def spec_ttf_rows_def)
  have d: "\<not> list_ex spec_out_of_range dated \<and> \<not> list_all isnull (map fst ttfs) \<longrightarrow>
            (\<exists>m. train_and_save_model prs (Some df0) = Saved m \<and>
                 (\<forall>k. dict_get m k =
                        (if notna k \<and> (\<exists>k' \<in> fst ` set ttfs. py_eq k' k)
                         then Some (round_half_even (spec_mean_ttf ttfs k)) else None)))"
  proof (intro impI, elim conjE)
    assume h: "\<not> list_ex spec_out_of_range dated" "\<not> list_all isnull (map fst ttfs)"
    have "train_and_save_model prs (Some df0) =
            Saved (groupby_mean_round (map fst ttfs) (map (\<lambda>r. IntV (snd r)) ttfs))"
      using p h ne' [OF h(2)] by (simp add: groupby_mean_round_empty)
    then show "\<exists>m. train_and_save_model prs (Some df0) = Saved m \<and>
                 (\<forall>k. dict_get m k =
                        (if notna k \<and> (\<exists>k' \<in> fst ` set ttfs. py_eq k' k)
                         then Some (round_half_even (spec_mean_ttf ttfs k)) else None))"
      using dict_get_model [of ttfs] by blast
  qed
  have e: "\<forall>v j. round_half_even v \<in> \<int> \<and> \<bar>round_half_even v - v\<bar> \<le> 1 / 2 \<and>
                round_half_even (of_int j + 1 / 2) = (if even j then of_int j else of_int j + 1)"
    using round_half_even_facts by blast
  from a b c d e show ?thesis by blast
qed

theorem training_mean_time_to_failure_witness:
  "wf_df 8 ex_training \<and>
   train_and_save_model ex_train_prs (Some ex_training) = Saved [(IntV 7, 52), (Str ''P4'', 0)] \<and>
   spec_ttf_rows (spec_dated_rows ex_parse ex_parse_us
     (zip [IntV 7, FltV 7, Str ''P2'', Str ''P3'', IntV 7, Null NaN, Str ''P4'', Str ''P5'']
        (zip [Str ''2023-01-01'', Date (Timestamp 2023 1 1 0), Str ''2023-03-15'',
              Str ''2023-01-01'', Str ''unknown'', Str ''2023-01-01'',
              Date (Timestamp 2023 1 1 5), Str ''2023-01-01'']
             [Str ''02/01/2023'', Date (Timestamp 2023 3 16 0), Str ''02/01/2023'',
              Null NaN, Str ''02/01/2023'', Str ''02/01/2023'',
              Date (Timestamp 2023 1 2 0), Str ''2023-02-01''])))
     = [(IntV 7, 31), (FltV 7, 74), (Null NaN, 31), (Str ''P4'', 0)] \<and>
   dict_get [(IntV 7, 52), (Str ''P4'', 0)] (FltV 7)
     = Some (round_half_even (spec_mean_ttf
          [(IntV 7, 31), (FltV 7, 74), (Null NaN, 31), (Str ''P4'', 0)] (FltV 7))) \<and>
   spec_mean_ttf [(IntV 7, 31), (FltV 7, 74), (Null NaN, 31), (Str ''P4'', 0)] (FltV 7) = 105 / 2"
proof -
  let ?kc = "Column DObject [IntV 7, FltV 7, Str ''P2'', Str ''P3'', IntV 7, Null NaN, Str ''P4'', Str ''P5'']"
  let ?pc = "Column DObject [Str ''2023-01-01'', Date (Timestamp 2023 1 1 0), Str ''2023-03-15'',
                             Str ''2023-01-01'', Str ''unknown'', Str ''2023-01-01'',
                             Date (Timestamp 2023 1 1 5), Str ''2023-01-01'']"
  let ?rc = "Column DObject [Str ''02/01/2023'', Date (Timestamp 2023 3 16 0), Str ''02/01/2023'',
                             Null NaN, Str ''02/01/2023'', Str ''02/01/2023'',
                             Date (Timestamp 2023 1 2 0), Str ''2023-02-01'']"
  let ?ttfs = "[(IntV 7, 31), (FltV 7, 74), (Null NaN, 31), (Str ''P4'', 0 :: int)]"
  have wf: "wf_df 8 ex_training" by (simp add: wf_df_def ex_training_def)
  have pc: "get_col ex_training ''Production Date'' = Some ?pc"
    and rc: "get_col ex_training ''repair date'' = Some ?rc"
    and kc: "get_col ex_training ''Part Number'' = Some ?kc"
    by (simp_all add: get_col_def ex_training_def)
  have pp: "ex_train_prs ?pc = Some ex_parse" by (simp add: ex_train_prs_def notna_def)
  have pr: "ex_train_prs ?rc = Some ex_parse_us" by (simp add: ex_train_prs_def notna_def)
  have run: "train_and_save_model ex_train_prs (Some ex_training)
               = Saved [(IntV 7, 52), (Str ''P4'', 0)]"
    by code_simp
  have rows: "spec_ttf_rows (spec_dated_rows ex_parse ex_parse_us
                (zip (cells ?kc) (zip (cells ?pc) (cells ?rc)))) = ?ttfs"
    by code_simp
  have inrange: "\<not> list_ex spec_out_of_range (spec_dated_rows ex_parse ex_parse_us
                (zip (cells ?kc) (zip (cells ?pc) (cells ?rc))))"
    by code_simp
  have keyed: "\<not> list_all isnull (map fst ?ttfs)" by simp
  have mean: "spec_mean_ttf ?ttfs (FltV 7) = 105 / 2" by code_simp
  from training_mean_time_to_failure [where prs = ex_train_prs, OF wf pc rc kc pp pr]
  have "\<not> list_ex spec_out_of_range (spec_dated_rows ex_parse ex_parse_us
                (zip (cells ?kc) (zip (cells ?pc) (cells ?rc)))) \<and>
        \<not> list_all isnull (map fst ?ttfs) \<longrightarrow>
        (\<exists>m. train_and_save_model ex_train_prs (Some ex_training) = Saved m \<and>
            (\<forall>k. dict_get m k =
               (if notna k \<and> (\<exists>k' \<in> fst ` set ?ttfs. py_eq k' k)
                then Some (round_half_even (spec_mean_ttf ?ttfs k)) else None)))"
    unfolding rows by blast
  with inrange keyed
  have "\<exists>m. train_and_save_model ex_train_prs (Some ex_training) = Saved m \<and>
            (\<forall>k. dict_get m k =
               (if notna k \<and> (\<exists>k' \<in> fst ` set ?ttfs. py_eq k' k)
                then Some (round_half_even (spec_mean_ttf ?ttfs k)) else None))"
    by blast
  then have all: "\<forall>k. dict_get [(IntV 7, 52), (Str ''P4'', 0)] k =
               (if notna k \<and> (\<exists>k' \<in> fst ` set ?ttfs. py_eq k' k)
                then Some (round_half_even (spec_mean_ttf ?ttfs k)) else None)"
    unfolding run by simp
  have "py_eq (IntV 7) (FltV 7)" by (simp add: py_eq_def py_key_def)
  then have "dict_get [(IntV 7, 52), (Str ''P4'', 0)] (FltV 7)
     = Some (round_half_even (spec_mean_ttf ?ttfs (FltV 7)))"
    using spec [OF all, of "FltV 7"] by (auto simp: notna_def)
  with wf run rows mean show ?thesis by simp
qed

text \<open>
  A table of two rows, both with a production and a repair date: the first row's dates
  are 500 years apart, the subtraction of the two columns raises, and nothing is saved
  for either part.
\<close>

theorem far_apart_dates_counterexample:
  "train_and_save_model ex_train_prs (Some ex_far_apart) = TrainRaised \<and>
   spec_dated_rows ex_parse ex_parse
     (zip [Str ''P1'', Str ''P2'']
        (zip [Date (Timestamp 1700 1 1 0), Date (Timestamp 2023 1 1 0)]
             [Date (Timestamp 2200 1 1 0), Date (Timestamp 2023 2 1 0)]))
     = [(Str ''P1'', Timestamp 1700 1 1 0, Timestamp 2200 1 1 0),
        (Str ''P2'', Timestamp 2023 1 1 0, Timestamp 2023 2 1 0)] \<and>
   spec_days (Timestamp 2200 1 1 0) (Timestamp 1700 1 1 0) = 182621 \<and>
   spec_days (Timestamp 2023 2 1 0) (Timestamp 2023 1 1 0) = 31"
  by code_simp

section \<open>Properties of the normaliser\<close>

lemma strip_cell_coerce: "strip_cell (coerce_cell parse c) = coerce_cell parse c"
  by (cases c) (auto simp: strip_cell_def coerce_cell_def to_datetime_cell_def split: option.splits)

lemma strip_converted:
  "map strip_cell (cells (to_datetime_coerce parse col)) = cells (to_datetime_coerce parse col)"
  by (simp add: to_datetime_coerce_def strip_cell_coerce)

lemma get_col_normalize:
  "get_col (normalize_frame prs df) name = map_option (normalize_column prs (len_df df)) (get_col df name)"
proof -
  have "map_of (map (\<lambda>(name, col). (name, f col)) xs) name = map_option f (map_of xs name)"
    for f :: "column \<Rightarrow> column" and xs
    by (induction xs) auto
  then show ?thesis by (simp add: normalize_frame_def get_col_def)
qed

lemma majority_fraction:
  assumes "length cs = n"
  shows "(\<not> list_all isnull cs \<and> 1 / 2 < real (length (filter notna cs)) / real n)
           \<longleftrightarrow> n < 2 * length (filter notna cs)"
proof (cases "n = 0")
  case True
  with assms show ?thesis by simp
next
  case False
  have a: "\<not> list_all isnull cs" if "0 < length (filter notna cs)"
  proof
    assume "list_all isnull cs"
    then have "filter notna cs = []" by (auto simp: list_all_iff notna_def filter_empty_conv)
    with that show False by simp
  qed
  have b: "1 / 2 < real (length (filter notna cs)) / real n \<longleftrightarrow> n < 2 * length (filter notna cs)"
    using False by (simp add: field_simps) linarith
  show ?thesis
  proof
    assume "\<not> list_all isnull cs \<and> 1 / 2 < real (length (filter notna cs)) / real n"
    then show "n < 2 * length (filter notna cs)" using b by blast
  next
    assume h: "n < 2 * length (filter notna cs)"
    then have "0 < length (filter notna cs)" by linarith
    then have "\<not> list_all isnull cs" by (rule a)
    moreover have "1 / 2 < real (length (filter notna cs)) / real n" using b h by blast
    ultimately show "\<not> list_all isnull cs \<and> 1 / 2 < real (length (filter notna cs)) / real n"
      by blast
  qed
qed

text \<open>
  Claim C2. A text (object) column of a raw table of \<open>n\<close> rows is replaced by its parsed
  dates exactly when not every value failed to parse and the parsed values are more
  than half of the rows; otherwise it stays text, with its strings stripped. The
  fraction is taken over all \<open>n\<close> rows of the table. The two conditions together say
  \<open>n < 2 * parsed\<close>: exactly half is not enough, anything above is.
\<close>

theorem normalize_date_threshold:
  fixes parse :: "cell \<Rightarrow> timestamp option"
  assumes wf: "wf_df n df" and col: "get_col df name = Some col"
      and obj: "dtype col = DObject" and prs: "prs col = Some parse"
  defines "converted \<equiv> to_datetime_coerce parse col"
  defines "parsed \<equiv> length (filter notna (cells converted))"
  shows "get_col (normalize_frame prs df) name =
           Some (if \<not> list_all isnull (cells converted) \<and> 1 / 2 < real parsed / real n
                 then converted else Column DObject (map strip_cell (cells col))) \<and>
         ((\<not> list_all isnull (cells converted) \<and> 1 / 2 < real parsed / real n) \<longleftrightarrow> n < 2 * parsed) \<and>
         (2 * parsed = n \<longrightarrow>
            get_col (normalize_frame prs df) name = Some (Column DObject (map strip_cell (cells col)))) \<and>
         (n < 2 * parsed \<longrightarrow> get_col (normalize_frame prs df) name = Some converted)"
proof -
  have ne: "df \<noteq> []" using col by (auto simp: get_col_def)
  have len: "len_df df = n" using wf ne by (cases df) (auto simp: wf_df_def len_df_def)
  have lcol: "length (cells col) = n"
    using wf col by (auto simp: wf_df_def get_col_def list_all_iff dest!: map_of_SomeD)
  have lconv: "length (cells converted) = n"
    by (simp add: converted_def to_datetime_coerce_def lcol)
  have frac: "(\<not> list_all isnull (cells converted) \<and> 1 / 2 < real parsed / real n) \<longleftrightarrow> n < 2 * parsed"
    unfolding parsed_def by (rule majority_fraction [OF lconv])
  have conv: "Column (dtype converted) (map strip_cell (cells converted)) = converted"
    by (simp add: converted_def strip_converted)
  have main: "get_col (normalize_frame prs df) name =
           Some (if \<not> list_all isnull (cells converted) \<and> 1 / 2 < real parsed / real n
                 then converted else Column DObject (map strip_cell (cells col)))"
    using conv
    by (simp add: get_col_normalize col len normalize_column_def obj convert_column_def prs
        Let_def date_like_def converted_def [symmetric] parsed_def [symmetric])
  show ?thesis using main frac by auto
qed

text \<open>
  The spec's example: of four rows, two parseable dates leave the column text, three
  make it a date column in which the unparseable entry is null.
\<close>

theorem normalize_date_threshold_witness:
  "wf_df 4 ex_raw \<and>
   get_col (normalize_frame ex_prs ex_raw) ''half''
     = Some (Column DObject [Str ''2023-01-01'', Str ''abc'', Str ''2023-02-01'', Str ''x'']) \<and>
   get_col (normalize_frame ex_prs ex_raw) ''most''
     = Some (Column DDatetime [Date (Timestamp 2023 1 1 0), Date (Timestamp 2023 2 1 0), Null NaT,
                               Date (Timestamp 2023 3 15 0)])"
proof -
  let ?half = "Column DObject [Str ''2023-01-01'', Str '' abc '', Str ''2023-02-01'', Str ''x'']"
  let ?most = "Column DObject [Str ''2023-01-01'', Str ''2023-02-01'', Str ''x'', Str ''2023-03-15'']"
  have wf: "wf_df 4 ex_raw" by code_simp
  have h: "get_col ex_raw ''half'' = Some ?half" and m: "get_col ex_raw ''most'' = Some ?most"
    by (simp_all add: get_col_def ex_raw_def)
  have oh: "dtype ?half = DObject" and om: "dtype ?most = DObject" by simp_all
  have ph: "ex_prs ?half = Some ex_parse" and pm: "ex_prs ?most = Some ex_parse"
    by (simp_all add: ex_prs_def)
  have nh: "2 * length (filter notna (cells (to_datetime_coerce ex_parse ?half))) = 4"
    by code_simp
  have nm: "4 < 2 * length (filter notna (cells (to_datetime_coerce ex_parse ?most)))"
    by code_simp
  have "get_col (normalize_frame ex_prs ex_raw) ''half'' = Some (Column DObject (map strip_cell (cells ?half)))"
    using normalize_date_threshold [where prs = ex_prs and parse = ex_parse, OF wf h oh ph] nh
    by blast
  moreover have "map strip_cell (cells ?half)
                   = [Str ''2023-01-01'', Str ''abc'', Str ''2023-02-01'', Str ''x'']"
    by code_simp
  moreover have "get_col (normalize_frame ex_prs ex_raw) ''most'' = Some (to_datetime_coerce ex_parse ?most)"
    using normalize_date_threshold [where prs = ex_prs and parse = ex_parse, OF wf m om pm] nm
    by blast
  moreover have "to_datetime_coerce ex_parse ?most
                   = Column DDatetime [Date (Timestamp 2023 1 1 0), Date (Timestamp 2023 2 1 0),
                                       Null NaT, Date (Timestamp 2023 3 15 0)]"
    by code_simp
  ultimately show ?thesis using wf by simp
qed

section \<open>Properties of the cache\<close>

lemma map_of_filter_keys:
  "map_of (filter (\<lambda>(k, v). Q k) xs) k = (if Q k then map_of xs k else None)"
  by (induction xs) auto

lemma sweep_simps:
  "data_folder (sweep e s st) = data_folder st"
  "cache_folder (sweep e s st) =
     filter (\<lambda>(name, d). \<not> (old_cache s name \<and> removable e name)) (cache_folder st)"
  "trace (sweep e s st) = trace st @ map RemoveCache (filter (old_cache s) (map fst (cache_folder st)))"
  by (simp_all add: sweep_def)

lemma rebuild_failed:
  "read_file e src f = None \<Longrightarrow>
   rebuild e src f key st = (False, st\<lparr>trace := trace st @ [ReadFile f]\<rparr>)"
  by (simp add: rebuild_def Let_def)

lemma rebuild_loaded:
  "read_file e src f = Some df \<Longrightarrow> to_parquet e (normalize_frame (parser e) df) = Some stored \<Longrightarrow>
   rebuild e src f key st =
     (False, st\<lparr>cache_folder := put key stored (cache_folder st),
                trace := trace st @ [ReadFile f, WriteCache key]\<rparr>)"
  by (simp add: rebuild_def Let_def)

lemma rebuild_write_raised:
  "read_file e src f = Some df \<Longrightarrow> to_parquet e (normalize_frame (parser e) df) = None \<Longrightarrow>
   rebuild e src f key st = (True, st\<lparr>trace := trace st @ [ReadFile f]\<rparr>)"
  by (simp add: rebuild_def Let_def)

lemma loader_calls_append [simp]: "loader_calls (a @ b) = loader_calls a + loader_calls b"
  by (simp add: loader_calls_def)

lemma loader_calls_RemoveCache [simp]: "loader_calls (map RemoveCache xs) = 0"
  by (induction xs) (simp_all add: loader_calls_def)

text \<open>
  Claim C1, for a selected file. When the cache folder already holds the entry named by
  the file's sanitised name and modification time, the handler answers with that entry
  and leaves the file system and the trace as they are: no call of \<^verbatim>\<open>read_file\<close>, no
  write. On a miss on which the file is read and the normalised table is written, the
  first call parses once and stores the entry, and a second call with the file unchanged
  is such a hit. (When the write raises, nothing is stored and the handler fails.)
\<close>

theorem select_cache_hit_is_pure:
  fixes e :: env
  assumes sel: "selected_file \<noteq> []"
      and dfile: "map_of (data_folder st) selected_file = Some (mtime, content)"
  defines "key \<equiv> select_cache_filename (secure_filename e selected_file) mtime"
  shows "(map_of (cache_folder st) key \<noteq> None \<longrightarrow>
            handle_file_selection_or_upload e st SelectDataset uc selected_file uf
              = (Loaded key selected_file, st)) \<and>
         (\<forall>df stored.
            map_of (cache_folder st) key = None \<and> read_file e content selected_file = Some df \<and>
            to_parquet e (normalize_frame (parser e) df) = Some stored \<longrightarrow>
            (\<exists>st1. handle_file_selection_or_upload e st SelectDataset uc selected_file uf
                      = (Loaded key selected_file, st1) \<and>
                   loader_calls (trace st1) = loader_calls (trace st) + 1 \<and>
                   map_of (cache_folder st1) key = Some stored \<and>
                   handle_file_selection_or_upload e st1 SelectDataset uc selected_file uf
                      = (Loaded key selected_file, st1))) \<and>
         (\<forall>df.
            map_of (cache_folder st) key = None \<and> read_file e content selected_file = Some df \<and>
            to_parquet e (normalize_frame (parser e) df) = None \<longrightarrow>
            (\<exists>st1. handle_file_selection_or_upload e st SelectDataset uc selected_file uf
                      = (LoadRaised, st1) \<and>
                   map_of (cache_folder st1) key = None))"
proof (intro conjI impI allI)
  assume "map_of (cache_folder st) key \<noteq> None"
  then show "handle_file_selection_or_upload e st SelectDataset uc selected_file uf
              = (Loaded key selected_file, st)"
    using sel dfile by (auto simp: handle_file_selection_or_upload_def Let_def key_def)
next
  fix df stored
  assume a: "map_of (cache_folder st) key = None \<and> read_file e content selected_file = Some df \<and>
            to_parquet e (normalize_frame (parser e) df) = Some stored"
  define sw where "sw = sweep e (secure_filename e selected_file) st"
  define st1 where
    "st1 = sw\<lparr>cache_folder := put key stored (cache_folder sw),
              trace := trace sw @ [ReadFile selected_file, WriteCache key]\<rparr>"
  have rb: "rebuild e content selected_file key sw = (False, st1)"
    unfolding st1_def using a by (intro rebuild_loaded) auto
  have first: "handle_file_selection_or_upload e st SelectDataset uc selected_file uf
                 = (Loaded key selected_file, st1)"
    using sel dfile a rb
    by (simp add: handle_file_selection_or_upload_def Let_def key_def [symmetric]
        sw_def [symmetric] finish_def)
  have calls: "loader_calls (trace st1) = loader_calls (trace st) + 1"
    by (simp add: st1_def sw_def sweep_simps) (simp add: loader_calls_def)
  have entry: "map_of (cache_folder st1) key = Some stored"
    by (simp add: st1_def map_of_put_same)
  have data: "data_folder st1 = data_folder st"
    by (simp add: st1_def sw_def sweep_simps)
  have second: "handle_file_selection_or_upload e st1 SelectDataset uc selected_file uf
                  = (Loaded key selected_file, st1)"
    using sel dfile entry data
    by (auto simp: handle_file_selection_or_upload_def Let_def key_def)
  show "\<exists>st1. handle_file_selection_or_upload e st SelectDataset uc selected_file uf
                      = (Loaded key selected_file, st1) \<and>
                   loader_calls (trace st1) = loader_calls (trace st) + 1 \<and>
                   map_of (cache_folder st1) key = Some stored \<and>
                   handle_file_selection_or_upload e st1 SelectDataset uc selected_file uf
                      = (Loaded key selected_file, st1)"
    using first calls entry second by blast
next
  fix df
  assume a: "map_of (cache_folder st) key = None \<and> read_file e content selected_file = Some df \<and>
            to_parquet e (normalize_frame (parser e) df) = None"
  define sw where "sw = sweep e (secure_filename e selected_file) st"
  define st1 where "st1 = sw\<lparr>trace := trace sw @ [ReadFile selected_file]\<rparr>"
  have rb: "rebuild e content selected_file key sw = (True, st1)"
    unfolding st1_def using a by (intro rebuild_write_raised) auto
  have first: "handle_file_selection_or_upload e st SelectDataset uc selected_file uf
                 = (LoadRaised, st1)"
    using sel dfile a rb
    by (simp add: handle_file_selection_or_upload_def Let_def key_def [symmetric]
        sw_def [symmetric] finish_def)
  have "map_of (cache_folder st1) key = None"
    using a by (simp add: st1_def sw_def sweep_simps map_of_filter_keys)
  with first show "\<exists>st1. handle_file_selection_or_upload e st SelectDataset uc selected_file uf
                      = (LoadRaised, st1) \<and> map_of (cache_folder st1) key = None"
    by blast
qed

theorem select_cache_hit_is_pure_witness:
  "handle_file_selection_or_upload ex_env ex_fs SelectDataset [] ''b.csv'' []
     = (Loaded ''select_b.csv_7.parquet'' ''b.csv'', ex_fs) \<and>
   (\<exists>st1. handle_file_selection_or_upload ex_env ex_fs SelectDataset [] ''c.csv'' []
            = (Loaded ''select_c.csv_9.parquet'' ''c.csv'', st1) \<and>
          loader_calls (trace st1) = 1 \<and>
          handle_file_selection_or_upload ex_env st1 SelectDataset [] ''c.csv'' []
            = (Loaded ''select_c.csv_9.parquet'' ''c.csv'', st1)) \<and>
   (\<exists>st1. handle_file_selection_or_upload ex_env ex_fs_mixed SelectDataset [] ''d.csv'' []
            = (LoadRaised, st1) \<and>
          map_of (cache_folder st1) ''select_d.csv_11.parquet'' = None)"
proof -
  have fb: "map_of (data_folder ex_fs) ''b.csv'' = Some (7, ''bytes'')"
    and fc: "map_of (data_folder ex_fs) ''c.csv'' = Some (9, ''bytes'')"
    by (simp_all add: ex_fs_def)
  have fd: "map_of (data_folder ex_fs_mixed) ''d.csv'' = Some (11, ''mixed'')"
    by (simp add: ex_fs_mixed_def)
  have kd: "select_cache_filename (secure_filename ex_env ''d.csv'') 11 = ''select_d.csv_11.parquet''"
    by code_simp
  have missd: "map_of (cache_folder ex_fs_mixed) ''select_d.csv_11.parquet'' = None"
    by (simp add: ex_fs_mixed_def)
  have readd: "read_file ex_env ''mixed'' ''d.csv'' = Some ex_mixed"
    by code_simp
  have raised: "to_parquet ex_env (normalize_frame (parser ex_env) ex_mixed) = None"
    by code_simp
  have kb: "select_cache_filename (secure_filename ex_env ''b.csv'') 7 = ''select_b.csv_7.parquet''"
    and kc: "select_cache_filename (secure_filename ex_env ''c.csv'') 9 = ''select_c.csv_9.parquet''"
    by code_simp+
  have hit: "map_of (cache_folder ex_fs) ''select_b.csv_7.parquet'' \<noteq> None"
    by (simp add: ex_fs_def)
  have miss: "map_of (cache_folder ex_fs) ''select_c.csv_9.parquet'' = None"
    by (simp add: ex_fs_def)
  have readable: "read_file ex_env ''bytes'' ''c.csv'' = Some ex_raw"
    by code_simp
  have written: "to_parquet ex_env (normalize_frame (parser ex_env) ex_raw)
                   = Some (normalize_frame ex_prs ex_raw)"
    by code_simp
  have tr: "loader_calls (trace ex_fs) = 0"
    by (simp add: ex_fs_def loader_calls_def)
  have "handle_file_selection_or_upload ex_env ex_fs SelectDataset [] ''b.csv'' []
          = (Loaded ''select_b.csv_7.parquet'' ''b.csv'', ex_fs)"
    using select_cache_hit_is_pure [of "''b.csv''" ex_fs 7 "''bytes''" ex_env "[]" "[]"] fb hit
    unfolding kb by simp
  moreover have "\<exists>st1. handle_file_selection_or_upload ex_env ex_fs SelectDataset [] ''c.csv'' []
            = (Loaded ''select_c.csv_9.parquet'' ''c.csv'', st1) \<and>
          loader_calls (trace st1) = 1 \<and>
          handle_file_selection_or_upload ex_env st1 SelectDataset [] ''c.csv'' []
            = (Loaded ''select_c.csv_9.parquet'' ''c.csv'', st1)"
    using select_cache_hit_is_pure [of "''c.csv''" ex_fs 9 "''bytes''" ex_env "[]" "[]"]
      fc miss readable written tr
    unfolding kc by auto
  moreover have "\<exists>st1. handle_file_selection_or_upload ex_env ex_fs_mixed SelectDataset [] ''d.csv'' []
            = (LoadRaised, st1) \<and>
          map_of (cache_folder st1) ''select_d.csv_11.parquet'' = None"
    using select_cache_hit_is_pure [of "''d.csv''" ex_fs_mixed 11 "''mixed''" ex_env "[]" "[]"]
      fd missd readd raised
    unfolding kd by auto
  ultimately show ?thesis by blast
qed

text \<open>
  The claim as stated also covers uploaded bytes. \<^verbatim>\<open>handle_save_file_confirmation\<close> has
  no test for an existing entry: a second upload of the same bytes, whose entry the first
  upload has stored, reads and parses the file and writes the entry again.
\<close>

theorem upload_cache_hit_counterexample:
  "map_of (cache_folder ex_uploaded) ''upload_a.csv_0123456789abcdef.parquet'' \<noteq> None \<and>
   trace ex_uploaded = [ReadFile ''a.csv'', WriteCache ''upload_a.csv_0123456789abcdef.parquet''] \<and>
   fst (handle_save_file_confirmation ex_env 0 ex_uploaded 1 ''no'' (Some (''bytes'', ''a.csv'')))
     = Loaded ''upload_a.csv_0123456789abcdef.parquet'' ''a.csv'' \<and>
   trace (snd (handle_save_file_confirmation ex_env 0 ex_uploaded 1 ''no'' (Some (''bytes'', ''a.csv''))))
     = [ReadFile ''a.csv'', WriteCache ''upload_a.csv_0123456789abcdef.parquet'',
        ReadFile ''a.csv'', WriteCache ''upload_a.csv_0123456789abcdef.parquet'']"
  by code_simp

text \<open>
  Claim C5, as the code has it. A failed load on a miss creates no entry: nothing is
  stored under the new name and every entry left in the cache folder was there before.
  The entries of earlier versions of the file do not survive it, since the sweep of
  \<^verbatim>\<open>select_<name>_*.parquet\<close> runs before the file is read.
\<close>

theorem failed_rebuild_creates_no_entry:
  assumes sel: "selected_file \<noteq> []"
      and dfile: "map_of (data_folder st) selected_file = Some (mtime, content)"
      and miss: "map_of (cache_folder st) (select_cache_filename (secure_filename e selected_file) mtime) = None"
      and fail: "read_file e content selected_file = None"
  shows "\<exists>st1. handle_file_selection_or_upload e st SelectDataset uc selected_file uf
                 = (Loaded (select_cache_filename (secure_filename e selected_file) mtime) selected_file, st1) \<and>
           map_of (cache_folder st1) (select_cache_filename (secure_filename e selected_file) mtime) = None \<and>
           set (cache_folder st1) \<subseteq> set (cache_folder st) \<and>
           cache_folder st1 =
             filter (\<lambda>(name, d). \<not> (old_cache (secure_filename e selected_file) name \<and> removable e name))
               (cache_folder st) \<and>
           (\<forall>name. old_cache (secure_filename e selected_file) name \<and> removable e name \<longrightarrow>
                map_of (cache_folder st1) name = None)"
proof -
  define s where "s = secure_filename e selected_file"
  define key where "key = select_cache_filename s mtime"
  define st1 where "st1 = (sweep e s st)\<lparr>trace := trace (sweep e s st) @ [ReadFile selected_file]\<rparr>"
  have first: "handle_file_selection_or_upload e st SelectDataset uc selected_file uf
                 = (Loaded key selected_file, st1)"
    using sel dfile miss
    by (simp add: handle_file_selection_or_upload_def Let_def s_def [symmetric]
        key_def [symmetric] st1_def rebuild_failed [OF fail] finish_def)
  have cf: "cache_folder st1 =
      filter (\<lambda>(name, d). \<not> (old_cache s name \<and> removable e name)) (cache_folder st)"
    by (simp add: st1_def sweep_simps)
  have none: "map_of (cache_folder st1) key = None"
    using miss by (simp add: cf map_of_filter_keys s_def key_def)
  have swept: "map_of (cache_folder st1) name = None" if "old_cache s name \<and> removable e name" for name
    using that by (simp add: cf map_of_filter_keys)
  show ?thesis
    using first cf none swept unfolding s_def [symmetric] key_def [symmetric]
    by (intro exI [of _ st1]) auto
qed

theorem failed_rebuild_creates_no_entry_witness:
  "read_file ex_env ''broken'' ''a.csv'' = None \<and>
   (\<exists>st1. handle_file_selection_or_upload ex_env ex_fs SelectDataset [] ''a.csv'' []
            = (Loaded ''select_a.csv_200.parquet'' ''a.csv'', st1) \<and>
          map_of (cache_folder st1) ''select_a.csv_200.parquet'' = None \<and>
          set (cache_folder st1) \<subseteq> set (cache_folder ex_fs))"
proof -
  have fa: "map_of (data_folder ex_fs) ''a.csv'' = Some (200, ''broken'')"
    by (simp add: ex_fs_def)
  have ka: "select_cache_filename (secure_filename ex_env ''a.csv'') 200 = ''select_a.csv_200.parquet''"
    by code_simp
  have miss: "map_of (cache_folder ex_fs) ''select_a.csv_200.parquet'' = None"
    by (simp add: ex_fs_def)
  have fail: "read_file ex_env ''broken'' ''a.csv'' = None"
    by code_simp
  show ?thesis
    using failed_rebuild_creates_no_entry [of "''a.csv''" ex_fs 200 "''broken''" ex_env "[]" "[]"]
      fa miss fail
    unfolding ka by auto
qed

text \<open>
  The claim as stated fails on the entry of the earlier version: it is in the cache
  folder before the call and gone after it, although the load failed.
\<close>

theorem stale_entry_counterexample:
  "map_of (cache_folder ex_fs) ''select_a.csv_100.parquet'' = Some ex_raw \<and>
   map_of (cache_folder ex_fs) ''select_a.csv_200.parquet'' = None \<and>
   read_file ex_env ''broken'' ''a.csv'' = None \<and>
   fst (handle_file_selection_or_upload ex_env ex_fs SelectDataset [] ''a.csv'' [])
     = Loaded ''select_a.csv_200.parquet'' ''a.csv'' \<and>
   map_of (cache_folder (snd (handle_file_selection_or_upload ex_env ex_fs SelectDataset [] ''a.csv'' [])))
      ''select_a.csv_100.parquet'' = None \<and>
   trace (snd (handle_file_selection_or_upload ex_env ex_fs SelectDataset [] ''a.csv'' []))
     = [RemoveCache ''select_a.csv_100.parquet'', ReadFile ''a.csv'']"
  by code_simp

end
